theory Spec2Isabelle
  imports Complex_Main
begin

section \<open>Collector registry (internal/collectors, CollectorRegistry)\<close>

text \<open>
  A registered collector is seen by the registry only through \<open>Name()\<close> and
  \<open>Description()\<close>. The Go interface value may be nil, so \<open>Register\<close> takes an
  option. The registry's \<open>collectors\<close> field is a Go map from names to collectors.
\<close>

record MetricCollector =
  mc_Name :: string
  mc_Description :: string

record CollectorRegistry =
  collectors :: "string \<rightharpoonup> MetricCollector"

text \<open>
  \<open>Register\<close> returns the Go error (\<open>None\<close> is nil; the error carries the message
  built by \<open>fmt.Errorf\<close>) together with the registry after the call.
\<close>

definition Register ::
  "CollectorRegistry \<Rightarrow> MetricCollector option \<Rightarrow> string option \<times> CollectorRegistry" where
  "Register r collector =
     (case collector of
        None \<Rightarrow> (Some ''collector cannot be nil'', r)
      | Some c \<Rightarrow>
          (let name = mc_Name c in
           if name = [] then (Some ''collector name cannot be empty'', r)
           else if collectors r name \<noteq> None
             then (Some (''collector '' @ name @ '' already registered''), r)
           else (None, r\<lparr>collectors := (collectors r)(name \<mapsto> c)\<rparr>)))"


section \<open>Health aggregation (internal/health, Manager.aggregateStatus)\<close>

text \<open>
  \<open>Status\<close> is a Go string type with four named constants. Any other string is a
  value of the type as well (the switch in \<open>aggregateStatus\<close> has no default branch and
  counts such a result in no counter); it is kept as \<open>StatusOther\<close>.
\<close>

datatype Status =
    StatusHealthy
  | StatusUnhealthy
  | StatusDegraded
  | StatusUnknown
  | StatusOther string

record CheckResult =
  cr_Name :: string
  cr_Status :: Status
  cr_Message :: string
  cr_LastChecked :: int
  cr_Duration :: int
  cr_Error :: string

text \<open>
  The argument of \<open>aggregateStatus\<close> is a Go map from check names to results. It is
  given by its entries, in the order the \<open>range\<close> loop visits them; \<open>len(checks)\<close> is
  the number of entries.
\<close>

type_synonym checks = "(string \<times> CheckResult) list"

record counts =
  healthyCount :: nat
  unhealthyCount :: nat
  degradedCount :: nat
  unknownCount :: nat

fun countResult :: "counts \<Rightarrow> string \<times> CheckResult \<Rightarrow> counts" where
  "countResult c (_, result) =
     (case cr_Status result of
        StatusHealthy \<Rightarrow> c\<lparr>healthyCount := healthyCount c + 1\<rparr>
      | StatusUnhealthy \<Rightarrow> c\<lparr>unhealthyCount := unhealthyCount c + 1\<rparr>
      | StatusDegraded \<Rightarrow> c\<lparr>degradedCount := degradedCount c + 1\<rparr>
      | StatusUnknown \<Rightarrow> c\<lparr>unknownCount := unknownCount c + 1\<rparr>
      | StatusOther _ \<Rightarrow> c)"

definition countChecks :: "checks \<Rightarrow> counts" where
  "countChecks cs =
     foldl countResult
       \<lparr>healthyCount = 0, unhealthyCount = 0, degradedCount = 0, unknownCount = 0\<rparr> cs"

text \<open>\<open>%d\<close> of \<open>fmt.Sprintf\<close> on a non-negative count.\<close>

fun digit_char :: "nat \<Rightarrow> char" where
  "digit_char n = char_of (48 + n)"

fun fmt_d :: "nat \<Rightarrow> string" where
  "fmt_d n = (if n < 10 then [digit_char n] else fmt_d (n div 10) @ [digit_char (n mod 10)])"

definition generateSummary :: "nat \<Rightarrow> nat \<Rightarrow> nat \<Rightarrow> nat \<Rightarrow> nat \<Rightarrow> string" where
  "generateSummary healthy unhealthy degraded unknown tot =
     (if tot = 1 then
        (if healthy = 1 then ''All systems operational''
         else if unhealthy = 1 then ''System experiencing issues''
         else if degraded = 1 then ''System performance degraded''
         else ''System status unknown'')
      else if unhealthy > 0 then
        fmt_d unhealthy @ '' of '' @ fmt_d tot @ '' checks failing''
      else if degraded > 0 then
        fmt_d degraded @ '' of '' @ fmt_d tot @ '' checks degraded''
      else if unknown > 0 \<and> healthy > 0 then
        fmt_d healthy @ '' of '' @ fmt_d tot @ '' checks healthy, '' @ fmt_d unknown @ '' unknown''
      else if healthy = tot then ''All systems operational''
      else fmt_d tot @ '' checks total: '' @ fmt_d healthy @ '' healthy, '' @ fmt_d degraded
             @ '' degraded, '' @ fmt_d unhealthy @ '' unhealthy, '' @ fmt_d unknown @ '' unknown'')"

definition aggregateStatus :: "checks \<Rightarrow> Status \<times> string" where
  "aggregateStatus cs =
     (if length cs = 0 then (StatusUnknown, ''No health checks configured'')
      else
        (let c = countChecks cs;
             totalChecks = length cs;
             summary = generateSummary (healthyCount c) (unhealthyCount c) (degradedCount c)
                         (unknownCount c) totalChecks
         in if unhealthyCount c > 0 then (StatusUnhealthy, summary)
            else if degradedCount c > 0 then (StatusDegraded, summary)
            else if unknownCount c = totalChecks then (StatusUnknown, summary)
            else if healthyCount c = totalChecks then (StatusHealthy, summary)
            else if healthyCount c > 0 then (StatusDegraded, summary)
            else (StatusUnknown, summary)))"

text \<open>The statuses that occur in a check map.\<close>

definition statuses :: "checks \<Rightarrow> Status set" where
  "statuses cs = set (map (cr_Status \<circ> snd) cs)"

text \<open>How many checks of a map carry a given status.\<close>

definition countOf :: "Status \<Rightarrow> checks \<Rightarrow> nat" where
  "countOf st cs = length (filter (\<lambda>p. cr_Status (snd p) = st) cs)"


section \<open>Machine arithmetic and time\<close>

text \<open>
  Go's \<open>int64\<close> (and \<open>time.Duration\<close>, a count of nanoseconds) is modelled by \<open>int\<close>
  with the wrap-around written out where a sum or a product can leave the 64-bit range
  (Go's \<open>int\<close> has 64 bits on the platforms the repository builds for). A \<open>time.Time\<close>
  is the number of nanoseconds since the Unix epoch.
\<close>

definition wrap64 :: "int \<Rightarrow> int" where
  "wrap64 x = (x + 2 ^ 63) mod 2 ^ 64 - 2 ^ 63"

definition sat64 :: "int \<Rightarrow> int" where
  "sat64 x = max (- (2 ^ 63)) (min (2 ^ 63 - 1) x)"

text \<open>Go's \<open>/\<close> and \<open>%\<close> on integers truncate towards zero.\<close>

definition tdiv :: "int \<Rightarrow> int \<Rightarrow> int" where
  "tdiv a b = sgn a * sgn b * (\<bar>a\<bar> div \<bar>b\<bar>)"

definition trem :: "int \<Rightarrow> int \<Rightarrow> int" where
  "trem a b = sgn a * (\<bar>a\<bar> mod \<bar>b\<bar>)"

text \<open>\<open>t.Sub(u)\<close> saturates at the largest and smallest duration; \<open>time.Since(t)\<close> is
  \<open>time.Now().Sub(t)\<close>, with the clock reading passed in.\<close>

definition time_Sub :: "int \<Rightarrow> int \<Rightarrow> int" where
  "time_Sub t u = sat64 (t - u)"

definition time_Since :: "int \<Rightarrow> int \<Rightarrow> int" where
  "time_Since now t = time_Sub now t"

definition Millisecond :: int where "Millisecond = 1000000"
definition Second :: int where "Second = 1000000000"


section \<open>Classified errors (pkg/errors)\<close>

datatype ErrorType =
    ErrorTypeAWS
  | ErrorTypeConfig
  | ErrorTypeNetwork
  | ErrorTypeValidation
  | ErrorTypeInternal
  | ErrorTypeTimeout
  | ErrorTypePermission
  | ErrorTypeRateLimit
  | ErrorTypeOther string

datatype Severity = SeverityLow | SeverityMedium | SeverityHigh | SeverityCritical

text \<open>
  The fields of \<open>errors.Error\<close> that the retry logic reads or writes. \<open>Cause\<close> keeps the
  message of the wrapped error. \<open>Timestamp\<close>, \<open>StackTrace\<close> and \<open>Metadata\<close> are only
  serialised and are left out.
\<close>

record Error =
  e_Type :: ErrorType
  e_Code :: string
  e_Message :: string
  e_Severity :: Severity
  e_Operation :: string
  e_Region :: string
  e_Service :: string
  e_Cause :: "string option"
  e_Retryable :: bool
  e_RetryAfter :: "int option"

text \<open>
  A non-nil value of Go's \<open>error\<close> interface: a \<open>*errors.Error\<close> (the pointer itself
  may be nil) or an error of another type, given by its message.
\<close>

datatype go_error = ErrPtr "Error option" | ErrOther string

definition New :: "ErrorType \<Rightarrow> string \<Rightarrow> string \<Rightarrow> Error" where
  "New errorType code message =
     \<lparr>e_Type = errorType, e_Code = code, e_Message = message, e_Severity = SeverityMedium,
      e_Operation = [], e_Region = [], e_Service = [], e_Cause = None,
      e_Retryable = False, e_RetryAfter = None\<rparr>"

text \<open>\<open>Wrap\<close> on an error that is not a \<open>*errors.Error\<close>, the only way the retry loop
  calls it.\<close>

definition Wrap :: "string \<Rightarrow> ErrorType \<Rightarrow> string \<Rightarrow> string \<Rightarrow> Error" where
  "Wrap err errorType code message =
     \<lparr>e_Type = errorType, e_Code = code, e_Message = message, e_Severity = SeverityMedium,
      e_Operation = [], e_Region = [], e_Service = [], e_Cause = Some err,
      e_Retryable = False, e_RetryAfter = None\<rparr>"

definition WithSeverity :: "Error option \<Rightarrow> Severity \<Rightarrow> Error option" where
  "WithSeverity err severity = map_option (\<lambda>e. e\<lparr>e_Severity := severity\<rparr>) err"

definition WithRetryable :: "Error option \<Rightarrow> bool \<Rightarrow> Error option" where
  "WithRetryable err retryable = map_option (\<lambda>e. e\<lparr>e_Retryable := retryable\<rparr>) err"

definition WithOperation :: "Error option \<Rightarrow> string \<Rightarrow> Error option" where
  "WithOperation err operation = map_option (\<lambda>e. e\<lparr>e_Operation := operation\<rparr>) err"

definition WithRegion :: "Error option \<Rightarrow> string \<Rightarrow> Error option" where
  "WithRegion err region = map_option (\<lambda>e. e\<lparr>e_Region := region\<rparr>) err"

definition NewValidationError :: "string \<Rightarrow> string \<Rightarrow> Error" where
  "NewValidationError code message = New ErrorTypeValidation code message"

definition NewNetworkError :: "string \<Rightarrow> string \<Rightarrow> Error" where
  "NewNetworkError code message = (New ErrorTypeNetwork code message)\<lparr>e_Retryable := True\<rparr>"

definition NewPermissionError :: "string \<Rightarrow> string \<Rightarrow> Error" where
  "NewPermissionError operation resource =
     (New ErrorTypePermission ''ACCESS_DENIED''
        (''insufficient permissions for resource: '' @ resource))
       \<lparr>e_Operation := operation, e_Severity := SeverityHigh\<rparr>"

definition GetRetryAfter :: "Error option \<Rightarrow> int option" where
  "GetRetryAfter err = (case err of None \<Rightarrow> None | Some e \<Rightarrow> e_RetryAfter e)"


section \<open>Retry policy (internal/collectors, DefaultErrorHandler)\<close>

record DefaultErrorHandler =
  maxRetries :: int
  baseDelay :: int

definition NewDefaultErrorHandler :: DefaultErrorHandler where
  "NewDefaultErrorHandler = \<lparr>maxRetries = 3, baseDelay = Second\<rparr>"

text \<open>\<open>strings.Contains\<close>: the second string occurs in the first as a contiguous run.\<close>

fun has_prefix :: "string \<Rightarrow> string \<Rightarrow> bool" where
  "has_prefix _ [] = True"
| "has_prefix [] (_ # _) = False"
| "has_prefix (x # xs) (y # ys) = (x = y \<and> has_prefix xs ys)"

fun Contains :: "string \<Rightarrow> string \<Rightarrow> bool" where
  "Contains [] sub = (sub = [])"
| "Contains (x # xs) sub = (has_prefix (x # xs) sub \<or> Contains xs sub)"

text \<open>
  \<open>strings.ToLower\<close> on an ASCII string (every byte below 128): the letters A to Z are
  mapped to a to z, every other byte is kept. On a string with a byte from 128 on Go
  decodes runes and lower-cases them by the Unicode tables; \<open>ToLower\<close> does not model
  that, and what is proved of it is proved of strings for which \<open>isASCII\<close> holds.
\<close>

definition isASCII :: "string \<Rightarrow> bool" where
  "isASCII s = list_all (\<lambda>c. (of_char c :: nat) < 128) s"

definition lower_char :: "char \<Rightarrow> char" where
  "lower_char c =
     (let n = of_char c :: nat in if 65 \<le> n \<and> n \<le> 90 then char_of (n + 32) else c)"

definition ToLower :: "string \<Rightarrow> string" where
  "ToLower s = map lower_char s"

definition retryableAWSCodes :: "string list" where
  "retryableAWSCodes =
     [''InternalError'', ''InternalFailure'', ''ServiceUnavailable'', ''Throttling'',
      ''ThrottlingException'', ''RequestLimitExceeded'', ''RequestTimeout'',
      ''RequestTimeoutException'', ''PriorRequestNotComplete'', ''ConnectionError'',
      ''NetworkError'', ''DNSError'', ''TimeoutError'', ''RequestExpired'',
      ''ServiceTemporarilyUnavailable'']"

definition retryablePatterns :: "string list" where
  "retryablePatterns =
     [''connection reset'', ''connection timeout'', ''connection refused'', ''no such host'',
      ''network is unreachable'', ''temporary failure'', ''service temporarily unavailable'',
      ''internal server error'', ''bad gateway'', ''gateway timeout'']"

definition shouldRetryAWSError :: "Error \<Rightarrow> bool" where
  "shouldRetryAWSError err =
     (if list_ex (\<lambda>code. Contains (e_Code err) code \<or> Contains (e_Message err) code)
           retryableAWSCodes
      then True
      else list_ex (\<lambda>pattern. Contains (ToLower (e_Message err)) pattern) retryablePatterns)"

definition retryableInternalCodes :: "string list" where
  "retryableInternalCodes =
     [''CONTEXT_CANCELLED'', ''TIMEOUT'', ''NETWORK_ERROR'', ''TEMPORARY_FAILURE'']"

definition shouldRetryInternalError :: "Error \<Rightarrow> bool" where
  "shouldRetryInternalError err = list_ex (\<lambda>code. e_Code err = code) retryableInternalCodes"

definition ShouldRetry :: "DefaultErrorHandler \<Rightarrow> Error option \<Rightarrow> int \<Rightarrow> bool" where
  "ShouldRetry eh err attempt =
     (case err of
        None \<Rightarrow> False
      | Some e \<Rightarrow>
          if attempt \<ge> maxRetries eh then False
          else if e_Retryable e then True
          else (case e_Type e of
                  ErrorTypeAWS \<Rightarrow> shouldRetryAWSError e
                | ErrorTypeNetwork \<Rightarrow> True
                | ErrorTypeTimeout \<Rightarrow> True
                | ErrorTypeRateLimit \<Rightarrow> True
                | ErrorTypePermission \<Rightarrow> False
                | ErrorTypeConfig \<Rightarrow> False
                | ErrorTypeValidation \<Rightarrow> False
                | ErrorTypeInternal \<Rightarrow> shouldRetryInternalError e
                | ErrorTypeOther _ \<Rightarrow> False))"

text \<open>
  \<open>GetRetryDelay\<close> computes in \<open>float64\<close>: \<open>float64(baseDelay) * math.Pow(2, attempt)\<close>,
  converted back to a duration, and a quarter of that, converted to \<open>int64\<close>. For a base
  delay of magnitude at most \<open>2^53\<close> these floats are exact, so the conversions are the
  integer \<open>pow2_scale\<close> (the product, truncated towards zero) and a truncating division
  by four. Outside that range, or when the product does not fit \<open>int64\<close> or is not a
  number (a zero base delay times \<open>math.Pow(2, attempt)\<close>, which is infinite from attempt
  1024 on; Go leaves the value of such a conversion to the implementation), the model
  stops with \<open>FloatOutsideModel\<close>. The remainder by a zero jitter is Go's run-time panic.
\<close>

datatype abort = IntegerDivideByZero | FloatOutsideModel

definition pow2_scale :: "int \<Rightarrow> int \<Rightarrow> int" where
  "pow2_scale b a = (if 0 \<le> a then b * 2 ^ nat a else tdiv b (2 ^ nat (- a)))"

definition maxDelay :: int where "maxDelay = 30 * Second"
definition minDelay :: int where "minDelay = 100 * Millisecond"

definition clampDelay :: "int \<Rightarrow> int" where
  "clampDelay delay =
     (let d1 = (if delay > maxDelay then maxDelay else delay)
      in if d1 < minDelay then minDelay else d1)"

definition GetRetryDelay :: "DefaultErrorHandler \<Rightarrow> int \<Rightarrow> Error option \<Rightarrow> int \<Rightarrow> abort + int" where
  "GetRetryDelay eh now err attempt =
     (case err of
        None \<Rightarrow> Inr (baseDelay eh)
      | Some e \<Rightarrow>
          (case GetRetryAfter err of
             Some retryAfter \<Rightarrow> Inr retryAfter
           | None \<Rightarrow>
               (let delay = pow2_scale (baseDelay eh) attempt in
                if \<bar>baseDelay eh\<bar> > 2 ^ 53 \<or> delay < - (2 ^ 63) \<or> delay \<ge> 2 ^ 63
                   \<or> (baseDelay eh = 0 \<and> attempt > 1023)
                  then Inl FloatOutsideModel
                else
                  (let jitter = tdiv delay 4 in
                   if jitter = 0 then Inl IntegerDivideByZero
                   else
                     (let jitterAdjustment = trem (wrap64 (2 * now)) jitter - jitter
                      in Inr (clampDelay (delay + jitterAdjustment)))))))"


section \<open>Circuit breaker (internal/collectors, CircuitBreakerErrorHandler)\<close>

datatype CircuitBreakerState = CircuitBreakerClosed | CircuitBreakerOpen | CircuitBreakerHalfOpen

record CircuitBreakerErrorHandler =
  cb_default :: DefaultErrorHandler
  cb_state :: CircuitBreakerState
  failureCount :: int
  lastFailure :: int
  successCount :: int
  failureThreshold :: int
  cb_timeout :: int
  recoveryThreshold :: int

text \<open>Go's zero \<open>time.Time\<close> (1 January of year 1) in nanoseconds before the epoch.\<close>

definition zeroTime :: int where
  "zeroTime = - 62135596800 * Second"

definition NewCircuitBreakerErrorHandler :: CircuitBreakerErrorHandler where
  "NewCircuitBreakerErrorHandler =
     \<lparr>cb_default = \<lparr>maxRetries = 3, baseDelay = Second\<rparr>,
      cb_state = CircuitBreakerClosed, failureCount = 0, lastFailure = zeroTime,
      successCount = 0, failureThreshold = 5, cb_timeout = 60 * Second,
      recoveryThreshold = 3\<rparr>"

definition openCircuit :: "CircuitBreakerErrorHandler \<Rightarrow> CircuitBreakerErrorHandler" where
  "openCircuit cb = cb\<lparr>cb_state := CircuitBreakerOpen\<rparr>"

definition closeCircuit :: "CircuitBreakerErrorHandler \<Rightarrow> CircuitBreakerErrorHandler" where
  "closeCircuit cb = cb\<lparr>cb_state := CircuitBreakerClosed, failureCount := 0, successCount := 0\<rparr>"

definition transitionToHalfOpen :: "CircuitBreakerErrorHandler \<Rightarrow> CircuitBreakerErrorHandler" where
  "transitionToHalfOpen cb = cb\<lparr>cb_state := CircuitBreakerHalfOpen, successCount := 0\<rparr>"

definition isCircuitOpen ::
  "CircuitBreakerErrorHandler \<Rightarrow> int \<Rightarrow> bool \<times> CircuitBreakerErrorHandler" where
  "isCircuitOpen cb now =
     (if cb_state cb = CircuitBreakerOpen then
        (if time_Since now (lastFailure cb) > cb_timeout cb
         then (False, transitionToHalfOpen cb)
         else (True, cb))
      else (False, cb))"

definition cb_ShouldRetry ::
  "CircuitBreakerErrorHandler \<Rightarrow> int \<Rightarrow> Error option \<Rightarrow> int \<Rightarrow> bool \<times> CircuitBreakerErrorHandler" where
  "cb_ShouldRetry cb now err attempt =
     (case isCircuitOpen cb now of
        (True, cb') \<Rightarrow> (False, cb')
      | (False, cb') \<Rightarrow> (ShouldRetry (cb_default cb') err attempt, cb'))"

definition RecordSuccess :: "CircuitBreakerErrorHandler \<Rightarrow> CircuitBreakerErrorHandler" where
  "RecordSuccess cb =
     (case cb_state cb of
        CircuitBreakerHalfOpen \<Rightarrow>
          (let cb1 = cb\<lparr>successCount := wrap64 (successCount cb + 1)\<rparr>
           in if successCount cb1 \<ge> recoveryThreshold cb1 then closeCircuit cb1 else cb1)
      | CircuitBreakerOpen \<Rightarrow> closeCircuit cb
      | CircuitBreakerClosed \<Rightarrow> cb\<lparr>failureCount := 0\<rparr>)"

definition recordFailure :: "CircuitBreakerErrorHandler \<Rightarrow> int \<Rightarrow> CircuitBreakerErrorHandler" where
  "recordFailure cb now =
     (let cb0 = cb\<lparr>lastFailure := now\<rparr> in
      case cb_state cb0 of
        CircuitBreakerClosed \<Rightarrow>
          (let cb1 = cb0\<lparr>failureCount := wrap64 (failureCount cb0 + 1)\<rparr>
           in if failureCount cb1 \<ge> failureThreshold cb1 then openCircuit cb1 else cb1)
      | CircuitBreakerHalfOpen \<Rightarrow> openCircuit cb0
      | CircuitBreakerOpen \<Rightarrow> cb0)"

text \<open>\<open>HandleError\<close> of the breaker logs through the default handler (no state) and
  records the failure.\<close>

definition cb_HandleError ::
  "CircuitBreakerErrorHandler \<Rightarrow> int \<Rightarrow> string \<Rightarrow> Error option \<Rightarrow> CircuitBreakerErrorHandler" where
  "cb_HandleError cb now collectorName err = recordFailure cb now"

text \<open>A run of recorded failures (at the given clock readings) and of recorded successes.\<close>

definition recordFailures :: "CircuitBreakerErrorHandler \<Rightarrow> int list \<Rightarrow> CircuitBreakerErrorHandler" where
  "recordFailures cb ts = foldl recordFailure cb ts"

definition recordSuccesses :: "CircuitBreakerErrorHandler \<Rightarrow> nat \<Rightarrow> CircuitBreakerErrorHandler" where
  "recordSuccesses cb n = (RecordSuccess ^^ n) cb"


text \<open>The thresholds that \<open>NewCircuitBreakerErrorHandler\<close> sets; no method changes them.\<close>

definition defaults :: "CircuitBreakerErrorHandler \<Rightarrow> bool" where
  "defaults cb \<longleftrightarrow> failureThreshold cb = 5 \<and> cb_timeout cb = 60 * Second \<and> recoveryThreshold cb = 3"


section \<open>Collectors (internal/collectors, BaseCollector)\<close>

text \<open>The two implementations of the \<open>ErrorHandler\<close> interface. The breaker embeds a
  default handler and inherits its \<open>GetRetryDelay\<close>; the handlers read the clock, which
  is passed in.\<close>

datatype ErrorHandler =
    DefaultHandler DefaultErrorHandler
  | BreakerHandler CircuitBreakerErrorHandler

fun eh_ShouldRetry :: "ErrorHandler \<Rightarrow> int \<Rightarrow> Error option \<Rightarrow> int \<Rightarrow> bool \<times> ErrorHandler" where
  "eh_ShouldRetry (DefaultHandler eh) now err attempt = (ShouldRetry eh err attempt, DefaultHandler eh)"
| "eh_ShouldRetry (BreakerHandler cb) now err attempt =
     (case cb_ShouldRetry cb now err attempt of (b, cb') \<Rightarrow> (b, BreakerHandler cb'))"

fun eh_GetRetryDelay :: "ErrorHandler \<Rightarrow> int \<Rightarrow> Error option \<Rightarrow> int \<Rightarrow> abort + int" where
  "eh_GetRetryDelay (DefaultHandler eh) now err attempt = GetRetryDelay eh now err attempt"
| "eh_GetRetryDelay (BreakerHandler cb) now err attempt =
     GetRetryDelay (cb_default cb) now err attempt"

fun eh_HandleError :: "ErrorHandler \<Rightarrow> int \<Rightarrow> string \<Rightarrow> Error option \<Rightarrow> ErrorHandler" where
  "eh_HandleError (DefaultHandler eh) now collectorName err = DefaultHandler eh"
| "eh_HandleError (BreakerHandler cb) now collectorName err =
     BreakerHandler (cb_HandleError cb now collectorName err)"

record MetricData =
  md_Name :: string
  md_Value :: real
  md_Unit :: string
  md_Timestamp :: int
  md_Labels :: "string \<rightharpoonup> string"
  md_Description :: string

record CollectionResult =
  res_CollectorName :: string
  res_Region :: string
  res_Metrics :: "MetricData list"
  res_CollectionTime :: int
  res_Duration :: int
  res_Error :: "Error option"
  res_Warnings :: "Error list"
  res_Metadata :: "string \<rightharpoonup> int"

record CollectorConfig =
  cfg_Interval :: int
  cfg_Timeout :: int
  cfg_Retries :: int
  cfg_RetryDelay :: int
  cfg_CustomTags :: "string \<rightharpoonup> string"

record BaseCollector =
  bc_name :: string
  collectorConfig :: CollectorConfig
  errorHandler :: ErrorHandler
  lastCollection :: "int option"
  lastError :: "Error option"
  metricsCollected :: int
  errorCount :: int
  successfulCollections :: int

definition getCommonLabels :: "BaseCollector \<Rightarrow> (string \<rightharpoonup> string)" where
  "getCommonLabels bc =
     [''collector'' \<mapsto> bc_name bc, ''service'' \<mapsto> ''aws-monitor'']
       ++ cfg_CustomTags (collectorConfig bc)"

text \<open>
  \<open>CreateMetric\<close>: a nil label map is replaced by the common labels; otherwise every
  common label whose key the caller's map lacks is added to it.
\<close>

definition CreateMetric ::
  "BaseCollector \<Rightarrow> int \<Rightarrow> string \<Rightarrow> real \<Rightarrow> string \<Rightarrow> (string \<rightharpoonup> string) option \<Rightarrow> MetricData" where
  "CreateMetric bc now name val unit labels =
     (let commonLabels = getCommonLabels bc;
          labels' = (case labels of
                       None \<Rightarrow> commonLabels
                     | Some l \<Rightarrow> (\<lambda>k. case l k of Some v \<Rightarrow> Some v | None \<Rightarrow> commonLabels k))
      in \<lparr>md_Name = name, md_Value = val, md_Unit = unit, md_Timestamp = now,
          md_Labels = labels', md_Description = []\<rparr>)"

definition recordSuccess :: "BaseCollector \<Rightarrow> BaseCollector" where
  "recordSuccess bc = bc\<lparr>successfulCollections := wrap64 (successfulCollections bc + 1)\<rparr>"

definition recordError :: "BaseCollector \<Rightarrow> Error option \<Rightarrow> BaseCollector" where
  "recordError bc err = bc\<lparr>errorCount := wrap64 (errorCount bc + 1), lastError := err\<rparr>"

definition recordCollection :: "BaseCollector \<Rightarrow> int \<Rightarrow> BaseCollector" where
  "recordCollection bc now =
     bc\<lparr>lastCollection := Some now, metricsCollected := wrap64 (metricsCollected bc + 1)\<rparr>"

text \<open>
  What one call of \<open>CollectWithRetry\<close> meets from outside, per loop iteration (numbered
  from 0): the value of \<open>ctx.Err()\<close> at the top of the iteration (\<open>None\<close> is nil), what
  the unit of work returns when called in that iteration, whether the context is done
  before the retry timer fires in the \<open>select\<close> (\<open>Some\<close> of \<open>ctx.Err()\<close> then), and the
  clock as the error handler reads it; then the clock at the start and at the end.
\<close>

record env =
  ctxErr :: "nat \<Rightarrow> string option"
  collectFunc :: "nat \<Rightarrow> MetricData list \<times> go_error option"
  waitDone :: "nat \<Rightarrow> string option"
  clock :: "nat \<Rightarrow> int"
  startClock :: int
  endClock :: int

text \<open>The variables of the loop; \<open>ls_calls\<close> counts the calls of the unit of work.\<close>

record loop_state =
  ls_bc :: BaseCollector
  ls_result :: CollectionResult
  ls_lastErr :: "Error option"
  ls_calls :: nat

datatype step = Continue loop_state | Break loop_state | Return loop_state

text \<open>One iteration of the loop body, for \<open>attempt < Retries + 1\<close>.\<close>

definition attemptStep :: "env \<Rightarrow> string \<Rightarrow> int \<Rightarrow> nat \<Rightarrow> loop_state \<Rightarrow> abort + step" where
  "attemptStep E region retries attempt st =
     (case ctxErr E attempt of
        Some cerr \<Rightarrow>
          Inr (Break (st\<lparr>ls_result := (ls_result st)\<lparr>res_Error :=
                 Some (Wrap cerr ErrorTypeInternal ''CONTEXT_CANCELLED'' ''collection cancelled'')\<rparr>\<rparr>))
      | None \<Rightarrow>
          (case collectFunc E attempt of
             (metrics, None) \<Rightarrow>
               Inr (Break (st\<lparr>ls_result := (ls_result st)\<lparr>res_Metrics := metrics\<rparr>,
                               ls_bc := recordSuccess (ls_bc st),
                               ls_calls := ls_calls st + 1\<rparr>))
           | (metrics, Some err) \<Rightarrow>
               (let lastErr0 = (case err of
                                  ErrPtr e \<Rightarrow> e
                                | ErrOther m \<Rightarrow>
                                    Some (Wrap m ErrorTypeInternal ''COLLECTION_ERROR'' ''collection failed''));
                    lastErr = WithRegion (WithOperation lastErr0 ''collect'') region;
                    (retry, handler) =
                       eh_ShouldRetry (errorHandler (ls_bc st)) (clock E attempt) lastErr (int attempt);
                    st1 = st\<lparr>ls_lastErr := lastErr,
                              ls_bc := (ls_bc st)\<lparr>errorHandler := handler\<rparr>,
                              ls_calls := ls_calls st + 1\<rparr>
                in if \<not> retry then Inr (Break st1)
                   else if int attempt < retries then
                     (case eh_GetRetryDelay handler (clock E attempt) lastErr (int attempt) of
                        Inl a \<Rightarrow> Inl a
                      | Inr retryDelay \<Rightarrow>
                          (case waitDone E attempt of
                             None \<Rightarrow> Inr (Continue st1)
                           | Some cerr \<Rightarrow>
                               (let err' = Some (Wrap cerr ErrorTypeInternal ''CONTEXT_CANCELLED''
                                                   ''collection cancelled during retry'')
                                in Inr (Return (st1\<lparr>
                                     ls_result := (ls_result st1)\<lparr>res_Error := err',
                                        res_Duration := time_Sub (endClock E) (startClock E)\<rparr>,
                                     ls_bc := recordError (ls_bc st1) err'\<rparr>)))))
                   else Inr (Continue st1))))"

datatype loop_exit = Fallthrough | EarlyReturn

function retryLoop ::
  "env \<Rightarrow> string \<Rightarrow> int \<Rightarrow> nat \<Rightarrow> loop_state \<Rightarrow> abort + (loop_exit \<times> loop_state)" where
  "retryLoop E region retries attempt st =
     (if int attempt < wrap64 (retries + 1) then
        (case attemptStep E region retries attempt st of
           Inl a \<Rightarrow> Inl a
         | Inr (Continue st') \<Rightarrow> retryLoop E region retries (Suc attempt) st'
         | Inr (Break st') \<Rightarrow> Inr (Fallthrough, st')
         | Inr (Return st') \<Rightarrow> Inr (EarlyReturn, st'))
      else Inr (Fallthrough, st))"
  by pat_completeness auto
termination
  by (relation "measure (\<lambda>(E, region, retries, attempt, st). nat (wrap64 (retries + 1) - int attempt))") auto

declare retryLoop.simps [simp del]

text \<open>The code after the loop, reached unless the loop returned from inside.\<close>

definition finishCollection :: "env \<Rightarrow> loop_state \<Rightarrow> loop_state" where
  "finishCollection E st =
     (let st1 = (if ls_lastErr st \<noteq> None \<and> length (res_Metrics (ls_result st)) = 0
                 then st\<lparr>ls_result := (ls_result st)\<lparr>res_Error := ls_lastErr st\<rparr>,
                         ls_bc := (recordError (ls_bc st) (ls_lastErr st))
                           \<lparr>errorHandler := eh_HandleError (errorHandler (ls_bc st)) (endClock E)
                                               (bc_name (ls_bc st)) (ls_lastErr st)\<rparr>\<rparr>
                 else st);
          r1 = (ls_result st1)\<lparr>res_Duration := time_Sub (endClock E) (startClock E)\<rparr>;
          attempts = (if res_Error r1 \<noteq> None
                      then wrap64 (cfg_Retries (collectorConfig (ls_bc st1)) + 1)
                      else int (length (res_Warnings r1)) + 1);
          r2 = r1\<lparr>res_Metadata := (res_Metadata r1)
                  (''attempts'' \<mapsto> attempts, ''metric_count'' \<mapsto> int (length (res_Metrics r1)))\<rparr>
      in st1\<lparr>ls_result := r2, ls_bc := recordCollection (ls_bc st1) (endClock E)\<rparr>)"

definition initialState :: "BaseCollector \<Rightarrow> env \<Rightarrow> string \<Rightarrow> loop_state" where
  "initialState bc E region =
     \<lparr>ls_bc = bc,
      ls_result = \<lparr>res_CollectorName = bc_name bc, res_Region = region, res_Metrics = [],
                   res_CollectionTime = startClock E, res_Duration = 0, res_Error = None,
                   res_Warnings = [], res_Metadata = Map.empty\<rparr>,
      ls_lastErr = None, ls_calls = 0\<rparr>"

text \<open>\<open>CollectWithRetry\<close> returns the result; the collector after the call and the number
  of calls of the unit of work are in the returned loop state.\<close>

definition CollectWithRetry :: "BaseCollector \<Rightarrow> env \<Rightarrow> string \<Rightarrow> abort + loop_state" where
  "CollectWithRetry bc E region =
     (case retryLoop E region (cfg_Retries (collectorConfig bc)) 0 (initialState bc E region) of
        Inl a \<Rightarrow> Inl a
      | Inr (EarlyReturn, st) \<Rightarrow> Inr st
      | Inr (Fallthrough, st) \<Rightarrow> Inr (finishCollection E st))"


text \<open>The state at the head of the loop: no metrics and no error in the result yet.\<close>

definition clean :: "loop_state \<Rightarrow> bool" where
  "clean st \<longleftrightarrow> res_Metrics (ls_result st) = [] \<and> res_Error (ls_result st) = None"


section \<open>Scheduler (internal/scheduler, MetricScheduler)\<close>

datatype SchedStatus =
    StatusStarting
  | StatusRunning
  | StatusStopping
  | StatusStopped
  | StatusError

record Config =
  TickInterval :: int
  MaxConcurrentJobs :: int
  JobTimeout :: int
  EnabledRegions :: "string list"

record ScheduledJob =
  job_ID :: string
  job_CollectorName :: string
  job_Region :: string
  job_Interval :: int
  job_NextRun :: int
  job_LastRun :: "int option"
  job_Enabled :: bool

text \<open>
  The scheduler's state. \<open>jobs\<close> is the Go map of scheduled jobs, given by its entries in
  the order a \<open>range\<close> loop visits them; \<open>activeJobs\<close> is the key set of the map of
  running jobs; \<open>semHeld\<close> is the number of tokens in the buffered channel
  \<open>jobSemaphore\<close>, whose capacity is \<open>MaxConcurrentJobs\<close>.
\<close>

record MetricScheduler =
  config :: Config
  status :: SchedStatus
  startTime :: "int option"
  lastTickTime :: "int option"
  jobs :: "(string \<times> ScheduledJob) list"
  activeJobs :: "string set"
  completedJobs :: int
  failedJobs :: int
  semHeld :: nat

definition Health :: "MetricScheduler \<Rightarrow> int \<Rightarrow> Error option" where
  "Health s now =
     (case status s of
        StatusRunning \<Rightarrow>
          (case lastTickTime s of
             Some t \<Rightarrow>
               if time_Since now t > wrap64 (2 * TickInterval (config s))
               then Some (NewValidationError ''SCHEDULER_NOT_TICKING''
                            ''scheduler has not ticked recently'')
               else None
           | None \<Rightarrow> None)
      | StatusError \<Rightarrow>
          Some (NewValidationError ''SCHEDULER_ERROR'' ''scheduler is in error state'')
      | StatusStopped \<Rightarrow>
          Some (NewValidationError ''SCHEDULER_STOPPED'' ''scheduler is stopped'')
      | _ \<Rightarrow>
          Some (NewValidationError ''SCHEDULER_NOT_READY'' ''scheduler is not ready''))"






section \<open>Example data\<close>

definition ec2 :: MetricCollector where
  "ec2 = \<lparr>mc_Name = ''ec2'', mc_Description = ''EC2 instances''\<rparr>"

definition reg0 :: CollectorRegistry where
  "reg0 = \<lparr>collectors = [''rds'' \<mapsto> \<lparr>mc_Name = ''rds'', mc_Description = ''RDS''\<rparr>]\<rparr>"

definition check :: "string \<Rightarrow> Status \<Rightarrow> string \<times> CheckResult" where
  "check name st = (name, \<lparr>cr_Name = name, cr_Status = st, cr_Message = [], cr_LastChecked = 0,
                            cr_Duration = 0, cr_Error = []\<rparr>)"


definition cbOpen :: CircuitBreakerErrorHandler where
  "cbOpen = NewCircuitBreakerErrorHandler
     \<lparr>cb_state := CircuitBreakerOpen, failureCount := 5, lastFailure := 5 * Second\<rparr>"

definition cbHalf :: CircuitBreakerErrorHandler where
  "cbHalf = cbOpen\<lparr>cb_state := CircuitBreakerHalfOpen, successCount := 0\<rparr>"

definition netErr :: Error where
  "netErr = NewNetworkError ''CONNECTION_ERROR'' ''connection failed''"


definition unflagged :: "ErrorType \<Rightarrow> string \<Rightarrow> string \<Rightarrow> Error" where
  "unflagged t code message = New t code message"

definition permErr :: Error where
  "permErr = NewPermissionError ''describe'' ''ec2:instances''"

definition handler0 :: ErrorHandler where
  "handler0 = DefaultHandler NewDefaultErrorHandler"

definition bc0 :: BaseCollector where
  "bc0 = \<lparr>bc_name = ''test-collector'',
          collectorConfig = \<lparr>cfg_Interval = 300 * Second, cfg_Timeout = 30 * Second, cfg_Retries = 2,
                             cfg_RetryDelay = 10 * Millisecond, cfg_CustomTags = Map.empty\<rparr>,
          errorHandler = handler0, lastCollection = None, lastError = None,
          metricsCollected = 0, errorCount = 0, successfulCollections = 0\<rparr>"

definition envPerm :: env where
  "envPerm = \<lparr>ctxErr = (\<lambda>i. None),
              collectFunc = (\<lambda>i. ([], Some (ErrPtr (Some permErr)))),
              waitDone = (\<lambda>i. None), clock = (\<lambda>i. int i * Second),
              startClock = 0, endClock = 10 * Second\<rparr>"


definition envCancelled :: env where
  "envCancelled = \<lparr>ctxErr = (\<lambda>i. None),
              collectFunc = (\<lambda>i. ([], Some (ErrPtr (Some netErr)))),
              waitDone = (\<lambda>i. Some ''context canceled''), clock = (\<lambda>i. int i * Second),
              startClock = 0, endClock = 10 * Second\<rparr>"

definition envRetry :: "MetricData list \<Rightarrow> env" where
  "envRetry ms = \<lparr>ctxErr = (\<lambda>i. None),
              collectFunc = (\<lambda>i. if i < 2 then ([], Some (ErrPtr (Some netErr))) else (ms, None)),
              waitDone = (\<lambda>i. None), clock = (\<lambda>i. int i * Second),
              startClock = 0, endClock = 10 * Second\<rparr>"

definition metric1 :: MetricData where
  "metric1 = CreateMetric bc0 0 ''retry_success_metric'' 2 ''Count'' None"


definition plainErr :: Error where
  "plainErr = New ErrorTypeNetwork ''CONNECTION_ERROR'' ''connection failed''"


definition rateErr :: Error where
  "rateErr = (New ErrorTypeRateLimit ''RATE_LIMIT'' ''rate limit exceeded'')
               \<lparr>e_RetryAfter := Some (7 * Second), e_Retryable := True\<rparr>"

definition clock0 :: int where
  "clock0 = 1700000000 * Second + 123456789"


definition bcTagged :: BaseCollector where
  "bcTagged = bc0\<lparr>collectorConfig := (collectorConfig bc0)
                 \<lparr>cfg_CustomTags := [''collector'' \<mapsto> ''tagged'', ''team'' \<mapsto> ''platform'']\<rparr>\<rparr>"

definition sched0 :: MetricScheduler where
  "sched0 = \<lparr>config = \<lparr>TickInterval = 30 * Second, MaxConcurrentJobs = 2,
                        JobTimeout = 300 * Second, EnabledRegions = []\<rparr>,
             status = StatusRunning, startTime = Some 0, lastTickTime = Some (100 * Second),
             jobs = [], activeJobs = {}, completedJobs = 0, failedJobs = 0, semHeld = 0\<rparr>"





section \<open>Properties of the registry\<close>

text \<open>
  C10. \<open>Register\<close> returns an error and leaves the registry as it was when the collector
  is nil, when its name is empty, or when a collector of that name is already registered.
  Otherwise it returns no error, the collector is stored under its name, and every other
  name maps to what it mapped to before.
\<close>

theorem Register_spec:
  "((collector = None \<or> (\<exists>c. collector = Some c \<and> (mc_Name c = [] \<or> collectors r (mc_Name c) \<noteq> None)))
      \<longrightarrow> fst (Register r collector) \<noteq> None \<and> snd (Register r collector) = r)
   \<and> (\<forall>c. collector = Some c \<and> mc_Name c \<noteq> [] \<and> collectors r (mc_Name c) = None
      \<longrightarrow> fst (Register r collector) = None
        \<and> collectors (snd (Register r collector)) (mc_Name c) = Some c
        \<and> (\<forall>n. n \<noteq> mc_Name c \<longrightarrow> collectors (snd (Register r collector)) n = collectors r n))"
  by (auto simp: Register_def Let_def split: option.splits)

theorem Register_spec_witness:
  "fst (Register reg0 None) \<noteq> None \<and> snd (Register reg0 None) = reg0
   \<and> fst (Register reg0 (Some ec2)) = None
   \<and> collectors (snd (Register reg0 (Some ec2))) ''ec2'' = Some ec2
   \<and> collectors (snd (Register reg0 (Some ec2))) ''rds'' = collectors reg0 ''rds''"
  using Register_spec [of None reg0] Register_spec [of "Some ec2" reg0]
  by (simp add: ec2_def reg0_def)


section \<open>Properties of the health aggregation\<close>

lemma foldl_countResult_healthy:
  "healthyCount (foldl countResult c cs) = healthyCount c + length (filter (\<lambda>p. cr_Status (snd p) = StatusHealthy) cs)"
  by (induction cs arbitrary: c) (auto split: Status.splits)

lemma foldl_countResult_unhealthy:
  "unhealthyCount (foldl countResult c cs) = unhealthyCount c + length (filter (\<lambda>p. cr_Status (snd p) = StatusUnhealthy) cs)"
  by (induction cs arbitrary: c) (auto split: Status.splits)

lemma foldl_countResult_degraded:
  "degradedCount (foldl countResult c cs) = degradedCount c + length (filter (\<lambda>p. cr_Status (snd p) = StatusDegraded) cs)"
  by (induction cs arbitrary: c) (auto split: Status.splits)

lemma foldl_countResult_unknown:
  "unknownCount (foldl countResult c cs) = unknownCount c + length (filter (\<lambda>p. cr_Status (snd p) = StatusUnknown) cs)"
  by (induction cs arbitrary: c) (auto split: Status.splits)

lemma countChecks_eq:
  "healthyCount (countChecks cs) = countOf StatusHealthy cs"
  "unhealthyCount (countChecks cs) = countOf StatusUnhealthy cs"
  "degradedCount (countChecks cs) = countOf StatusDegraded cs"
  "unknownCount (countChecks cs) = countOf StatusUnknown cs"
  by (simp_all add: countChecks_def countOf_def foldl_countResult_healthy
      foldl_countResult_unhealthy foldl_countResult_degraded foldl_countResult_unknown)

lemma countOf_pos: "countOf st cs > 0 \<longleftrightarrow> st \<in> statuses cs"
  by (induction cs) (auto simp: countOf_def statuses_def)

lemma countOf_le: "countOf st cs \<le> length cs"
  by (simp add: countOf_def)

lemma countOf_all: "countOf st cs = length cs \<longleftrightarrow> statuses cs \<subseteq> {st}"
proof (induction cs)
  case Nil
  then show ?case by (simp add: countOf_def statuses_def)
next
  case (Cons p cs)
  show ?case
  proof (cases "cr_Status (snd p) = st")
    case True
    then have "countOf st (p # cs) = Suc (countOf st cs)" by (simp add: countOf_def)
    moreover from True have "statuses (p # cs) \<subseteq> {st} \<longleftrightarrow> statuses cs \<subseteq> {st}"
      by (simp add: statuses_def)
    ultimately show ?thesis using Cons by simp
  next
    case False
    then have "countOf st (p # cs) = countOf st cs" by (simp add: countOf_def)
    then have "countOf st (p # cs) \<noteq> length (p # cs)" using countOf_le [of st cs] by simp
    moreover from False have "\<not> statuses (p # cs) \<subseteq> {st}" by (simp add: statuses_def)
    ultimately show ?thesis by simp
  qed
qed

lemma aggregateStatus_chain:
  "cs \<noteq> [] \<Longrightarrow> fst (aggregateStatus cs) =
     (if StatusUnhealthy \<in> statuses cs then StatusUnhealthy
      else if StatusDegraded \<in> statuses cs then StatusDegraded
      else if statuses cs \<subseteq> {StatusUnknown} then StatusUnknown
      else if statuses cs \<subseteq> {StatusHealthy} then StatusHealthy
      else if StatusHealthy \<in> statuses cs then StatusDegraded
      else StatusUnknown)"
  unfolding aggregateStatus_def Let_def countChecks_eq
  using countOf_pos[of StatusUnhealthy cs] countOf_pos[of StatusDegraded cs] countOf_pos[of StatusHealthy cs]
    countOf_all[of StatusUnknown cs] countOf_all[of StatusHealthy cs]
  by (simp del: subset_singleton_iff)


text \<open>
  C1. The overall status is computed from the check map by a fixed order of precedence.
  No checks: unknown, with the summary "No health checks configured". Otherwise: any
  unhealthy check gives unhealthy; else any degraded check gives degraded; else all
  checks unknown gives unknown; else all checks healthy gives healthy; else at least one
  healthy check gives degraded; else unknown. In particular a mix that contains unknown
  and healthy and neither degraded nor unhealthy gives degraded, the status sets
  {healthy, degraded}, {unhealthy, healthy}, {unknown, healthy} give degraded, unhealthy,
  degraded, and a map of unknown checks only gives unknown.
\<close>

theorem aggregateStatus_precedence:
  "aggregateStatus [] = (StatusUnknown, ''No health checks configured'')
   \<and> (cs \<noteq> [] \<longrightarrow>
        fst (aggregateStatus cs) =
          (if StatusUnhealthy \<in> statuses cs then StatusUnhealthy
           else if StatusDegraded \<in> statuses cs then StatusDegraded
           else if statuses cs \<subseteq> {StatusUnknown} then StatusUnknown
           else if statuses cs \<subseteq> {StatusHealthy} then StatusHealthy
           else if StatusHealthy \<in> statuses cs then StatusDegraded
           else StatusUnknown))
   \<and> (StatusUnknown \<in> statuses cs \<and> StatusHealthy \<in> statuses cs
        \<and> StatusDegraded \<notin> statuses cs \<and> StatusUnhealthy \<notin> statuses cs
        \<longrightarrow> fst (aggregateStatus cs) = StatusDegraded)
   \<and> (statuses cs = {StatusHealthy, StatusDegraded} \<longrightarrow> fst (aggregateStatus cs) = StatusDegraded)
   \<and> (statuses cs = {StatusUnhealthy, StatusHealthy} \<longrightarrow> fst (aggregateStatus cs) = StatusUnhealthy)
   \<and> (statuses cs = {StatusUnknown, StatusHealthy} \<longrightarrow> fst (aggregateStatus cs) = StatusDegraded)
   \<and> (statuses cs = {StatusUnknown} \<longrightarrow> fst (aggregateStatus cs) = StatusUnknown)"
proof -
  have empty: "aggregateStatus [] = (StatusUnknown, ''No health checks configured'')"
    by (simp add: aggregateStatus_def)
  have ne: "statuses cs \<noteq> {} \<Longrightarrow> cs \<noteq> []"
    by (auto simp: statuses_def)
  have chain: "cs \<noteq> [] \<longrightarrow>
        fst (aggregateStatus cs) =
          (if StatusUnhealthy \<in> statuses cs then StatusUnhealthy
           else if StatusDegraded \<in> statuses cs then StatusDegraded
           else if statuses cs \<subseteq> {StatusUnknown} then StatusUnknown
           else if statuses cs \<subseteq> {StatusHealthy} then StatusHealthy
           else if StatusHealthy \<in> statuses cs then StatusDegraded
           else StatusUnknown)"
    using aggregateStatus_chain by blast
  have mix: "StatusUnknown \<in> statuses cs \<and> StatusHealthy \<in> statuses cs
        \<and> StatusDegraded \<notin> statuses cs \<and> StatusUnhealthy \<notin> statuses cs
        \<longrightarrow> fst (aggregateStatus cs) = StatusDegraded"
    using chain ne by auto
  have e1: "statuses cs = {StatusHealthy, StatusDegraded} \<longrightarrow> fst (aggregateStatus cs) = StatusDegraded"
    using chain ne by auto
  have e2: "statuses cs = {StatusUnhealthy, StatusHealthy} \<longrightarrow> fst (aggregateStatus cs) = StatusUnhealthy"
    using chain ne by auto
  have e3: "statuses cs = {StatusUnknown, StatusHealthy} \<longrightarrow> fst (aggregateStatus cs) = StatusDegraded"
    using chain ne by auto
  have e4: "statuses cs = {StatusUnknown} \<longrightarrow> fst (aggregateStatus cs) = StatusUnknown"
    using chain ne by auto
  from empty chain mix e1 e2 e3 e4 show ?thesis by blast
qed

theorem aggregateStatus_precedence_witness:
  "fst (aggregateStatus [check ''A'' StatusHealthy, check ''B'' StatusDegraded]) = StatusDegraded
   \<and> fst (aggregateStatus [check ''A'' StatusUnhealthy, check ''B'' StatusHealthy]) = StatusUnhealthy
   \<and> fst (aggregateStatus [check ''A'' StatusUnknown, check ''B'' StatusHealthy]) = StatusDegraded
   \<and> fst (aggregateStatus [check ''A'' StatusUnknown, check ''B'' StatusUnknown]) = StatusUnknown
   \<and> fst (aggregateStatus [check ''A'' StatusHealthy, check ''B'' StatusHealthy]) = StatusHealthy
   \<and> fst (aggregateStatus [check ''A'' (StatusOther ''invalid'')]) = StatusUnknown"
  using aggregateStatus_precedence [of "[check ''A'' StatusHealthy, check ''B'' StatusDegraded]"]
    aggregateStatus_precedence [of "[check ''A'' StatusUnhealthy, check ''B'' StatusHealthy]"]
    aggregateStatus_precedence [of "[check ''A'' StatusUnknown, check ''B'' StatusHealthy]"]
    aggregateStatus_precedence [of "[check ''A'' StatusUnknown, check ''B'' StatusUnknown]"]
    aggregateStatus_precedence [of "[check ''A'' StatusHealthy, check ''B'' StatusHealthy]"]
    aggregateStatus_precedence [of "[check ''A'' (StatusOther ''invalid'')]"]
  by (simp add: statuses_def check_def)

section \<open>Properties of the machine arithmetic\<close>

lemma wrap64_id: "- (2 ^ 63) \<le> x \<Longrightarrow> x < 2 ^ 63 \<Longrightarrow> wrap64 x = x"
  by (simp add: wrap64_def)


section \<open>Properties of the circuit breaker\<close>

lemma recordFailure_closed:
  "cb_state cb = CircuitBreakerClosed \<Longrightarrow>
   recordFailure cb now =
     (if wrap64 (failureCount cb + 1) \<ge> failureThreshold cb
      then cb\<lparr>lastFailure := now, failureCount := wrap64 (failureCount cb + 1),
              cb_state := CircuitBreakerOpen\<rparr>
      else cb\<lparr>lastFailure := now, failureCount := wrap64 (failureCount cb + 1)\<rparr>)"
  by (simp add: recordFailure_def Let_def openCircuit_def)

lemma recordFailure_halfOpen:
  "cb_state cb = CircuitBreakerHalfOpen \<Longrightarrow>
   recordFailure cb now = cb\<lparr>lastFailure := now, cb_state := CircuitBreakerOpen\<rparr>"
  by (simp add: recordFailure_def Let_def openCircuit_def)

lemma recordFailure_open:
  "cb_state cb = CircuitBreakerOpen \<Longrightarrow> recordFailure cb now = cb\<lparr>lastFailure := now\<rparr>"
  by (simp add: recordFailure_def Let_def)

lemma RecordSuccess_closed:
  "cb_state cb = CircuitBreakerClosed \<Longrightarrow> RecordSuccess cb = cb\<lparr>failureCount := 0\<rparr>"
  by (simp add: RecordSuccess_def)

lemma RecordSuccess_halfOpen:
  "cb_state cb = CircuitBreakerHalfOpen \<Longrightarrow>
   RecordSuccess cb =
     (if wrap64 (successCount cb + 1) \<ge> recoveryThreshold cb
      then cb\<lparr>cb_state := CircuitBreakerClosed, failureCount := 0, successCount := 0\<rparr>
      else cb\<lparr>successCount := wrap64 (successCount cb + 1)\<rparr>)"
  by (simp add: RecordSuccess_def Let_def closeCircuit_def)

lemma RecordSuccess_open:
  "cb_state cb = CircuitBreakerOpen \<Longrightarrow>
   RecordSuccess cb = cb\<lparr>cb_state := CircuitBreakerClosed, failureCount := 0, successCount := 0\<rparr>"
  by (simp add: RecordSuccess_def closeCircuit_def)

lemma cb_ShouldRetry_open_denied:
  "cb_state cb = CircuitBreakerOpen \<Longrightarrow> time_Since now (lastFailure cb) \<le> cb_timeout cb \<Longrightarrow>
   cb_ShouldRetry cb now err attempt = (False, cb)"
  by (simp add: cb_ShouldRetry_def isCircuitOpen_def)

lemma cb_ShouldRetry_open_elapsed:
  "cb_state cb = CircuitBreakerOpen \<Longrightarrow> time_Since now (lastFailure cb) > cb_timeout cb \<Longrightarrow>
   cb_ShouldRetry cb now err attempt =
     (ShouldRetry (cb_default cb) err attempt, cb\<lparr>cb_state := CircuitBreakerHalfOpen, successCount := 0\<rparr>)"
  by (simp add: cb_ShouldRetry_def isCircuitOpen_def transitionToHalfOpen_def)

lemma cb_ShouldRetry_not_open:
  "cb_state cb \<noteq> CircuitBreakerOpen \<Longrightarrow>
   cb_ShouldRetry cb now err attempt = (ShouldRetry (cb_default cb) err attempt, cb)"
  by (simp add: cb_ShouldRetry_def isCircuitOpen_def)

lemma recordFailures_snoc: "recordFailures cb (ts @ [t]) = recordFailure (recordFailures cb ts) t"
  by (simp add: recordFailures_def)

lemma recordFailures_default:
  assumes "defaults cb" and "cb_state cb = CircuitBreakerClosed" and "failureCount cb = 0"
  shows "recordFailures cb ts =
     (if ts = [] then cb
      else cb\<lparr>lastFailure := last ts, failureCount := min (int (length ts)) 5,
              cb_state := (if length ts < 5 then CircuitBreakerClosed else CircuitBreakerOpen)\<rparr>)"
proof (induction ts rule: rev_induct)
  case Nil
  show ?case by (simp add: recordFailures_def)
next
  case (snoc t ts)
  from assms have thr: "failureThreshold cb = 5" by (simp add: defaults_def)
  show ?case
  proof (cases "ts = []")
    case True
    have "wrap64 (failureCount cb + 1) = 1" using assms(3) by (simp add: wrap64_def)
    then have "recordFailure cb t = cb\<lparr>lastFailure := t, failureCount := 1\<rparr>"
      using assms(2) thr by (simp add: recordFailure_closed)
    also have "\<dots> = cb\<lparr>lastFailure := t, failureCount := 1, cb_state := CircuitBreakerClosed\<rparr>"
      using assms(2) by (cases cb) simp
    finally show ?thesis using True by (simp add: recordFailures_def)
  next
    case False
    let ?n = "length ts"
    let ?cb = "cb\<lparr>lastFailure := last ts, failureCount := min (int ?n) 5,
              cb_state := (if ?n < 5 then CircuitBreakerClosed else CircuitBreakerOpen)\<rparr>"
    from snoc False have ih: "recordFailures cb ts = ?cb" by simp
    show ?thesis
    proof (cases "?n < 5")
      case True
      then have w: "wrap64 (failureCount ?cb + 1) = int ?n + 1" by (simp add: wrap64_def)
      have "recordFailure ?cb t =
          (if int ?n + 1 \<ge> 5
           then ?cb\<lparr>lastFailure := t, failureCount := int ?n + 1, cb_state := CircuitBreakerOpen\<rparr>
           else ?cb\<lparr>lastFailure := t, failureCount := int ?n + 1\<rparr>)"
        using True thr w by (simp add: recordFailure_closed)
      with True show ?thesis
        unfolding recordFailures_snoc ih by (cases cb) (auto simp: min_def)
    next
      case False
      then have "recordFailure ?cb t = ?cb\<lparr>lastFailure := t\<rparr>"
        by (simp add: recordFailure_open)
      with False show ?thesis
        unfolding recordFailures_snoc ih by (cases cb) (auto simp: min_def)
    qed
  qed
qed

lemma recordSuccesses_Suc: "recordSuccesses cb (Suc n) = RecordSuccess (recordSuccesses cb n)"
  by (simp add: recordSuccesses_def)

lemma recordSuccesses_default:
  assumes "defaults cb" and "cb_state cb = CircuitBreakerHalfOpen" and "successCount cb = 0"
  shows "recordSuccesses cb n =
     (if n < 3 then cb\<lparr>successCount := int n\<rparr>
      else cb\<lparr>cb_state := CircuitBreakerClosed, failureCount := 0, successCount := 0\<rparr>)"
proof (induction n)
  case 0
  show ?case using assms(3) by (cases cb) (simp add: recordSuccesses_def)
next
  case (Suc n)
  from assms have thr: "recoveryThreshold cb = 3" by (simp add: defaults_def)
  show ?case
  proof (cases "n < 3")
    case True
    let ?cb = "cb\<lparr>successCount := int n\<rparr>"
    from Suc True have ih: "recordSuccesses cb n = ?cb" by simp
    from True have w: "wrap64 (successCount ?cb + 1) = int n + 1" by (simp add: wrap64_def)
    have "RecordSuccess ?cb =
        (if int n + 1 \<ge> 3
         then ?cb\<lparr>cb_state := CircuitBreakerClosed, failureCount := 0, successCount := 0\<rparr>
         else ?cb\<lparr>successCount := int n + 1\<rparr>)"
      using assms(2) thr w by (simp add: RecordSuccess_halfOpen)
    with True show ?thesis
      unfolding recordSuccesses_Suc ih by (cases cb) auto
  next
    case False
    let ?cb = "cb\<lparr>cb_state := CircuitBreakerClosed, failureCount := 0, successCount := 0\<rparr>"
    from Suc False have ih: "recordSuccesses cb n = ?cb" by simp
    have "RecordSuccess ?cb = ?cb" by (simp add: RecordSuccess_closed)
    with False show ?thesis unfolding recordSuccesses_Suc ih by simp
  qed
qed


text \<open>
  C2, as stated, fails in two places. The state machine has a fifth transition: a success
  recorded while the breaker is open closes it at once, so that a retry is granted one
  second after the failure that opened it. And the cooldown test is strict: exactly 60
  seconds after the last recorded failure a consultation is still denied and the breaker
  stays open.
\<close>

theorem circuit_breaker_state_machine_counterexample:
  "recordFailures NewCircuitBreakerErrorHandler
      [Second, 2 * Second, 3 * Second, 4 * Second, 5 * Second] = cbOpen
   \<and> cb_state cbOpen = CircuitBreakerOpen
   \<and> cb_state (RecordSuccess cbOpen) = CircuitBreakerClosed
   \<and> cb_ShouldRetry (RecordSuccess cbOpen) (6 * Second) (Some netErr) 0 = (True, RecordSuccess cbOpen)
   \<and> time_Since (65 * Second) (lastFailure cbOpen) = 60 * Second
   \<and> cb_ShouldRetry cbOpen (65 * Second) (Some netErr) 0 = (False, cbOpen)"
  by (simp add: recordFailures_def recordFailure_def RecordSuccess_def closeCircuit_def
      openCircuit_def cb_ShouldRetry_def isCircuitOpen_def cbOpen_def netErr_def
      NewCircuitBreakerErrorHandler_def NewNetworkError_def New_def ShouldRetry_def
      time_Since_def time_Sub_def sat64_def wrap64_def Second_def Let_def)

text \<open>
  C2, amended. The breaker starts closed with both counters at zero. Every method is
  given in every state, so these are all the transitions. Closed: a recorded failure
  stamps its time and counts, and opens the breaker when the count reaches the failure
  threshold; a recorded success resets the count; a consultation answers by the default
  policy and changes nothing. Open: a recorded failure only renews the stamp; a recorded
  success closes the breaker and resets both counters; a consultation more than the
  timeout after the stamp moves the breaker to half-open, resets the success count and
  answers by the default policy, and any earlier consultation is denied, whatever the
  error and the attempt are, and changes nothing. Half-open: a recorded failure opens
  the breaker and stamps its time; a recorded success counts, and closes the breaker
  with both counters reset when the count reaches the recovery threshold; a consultation
  answers by the default policy and changes nothing. With the thresholds of the
  constructor: from closed with no failure counted, the breaker is closed after fewer
  than 5 failures in a row and open from the fifth on, stamped with the time of the last
  of them; after exactly 5, a consultation is denied up to 60 seconds after the fifth
  failure and moves to half-open later than that; from half-open with no success
  counted, the breaker is half-open after fewer than 3 successes and closed from the
  third on.
\<close>

theorem circuit_breaker_state_machine:
  "cb_state NewCircuitBreakerErrorHandler = CircuitBreakerClosed
   \<and> failureCount NewCircuitBreakerErrorHandler = 0
   \<and> successCount NewCircuitBreakerErrorHandler = 0
   \<and> defaults NewCircuitBreakerErrorHandler
   \<and> (cb_state cb = CircuitBreakerClosed \<longrightarrow>
        recordFailure cb now =
          (if wrap64 (failureCount cb + 1) \<ge> failureThreshold cb
           then cb\<lparr>lastFailure := now, failureCount := wrap64 (failureCount cb + 1),
                   cb_state := CircuitBreakerOpen\<rparr>
           else cb\<lparr>lastFailure := now, failureCount := wrap64 (failureCount cb + 1)\<rparr>)
        \<and> RecordSuccess cb = cb\<lparr>failureCount := 0\<rparr>
        \<and> cb_ShouldRetry cb now err attempt = (ShouldRetry (cb_default cb) err attempt, cb))
   \<and> (cb_state cb = CircuitBreakerOpen \<longrightarrow>
        recordFailure cb now = cb\<lparr>lastFailure := now\<rparr>
        \<and> RecordSuccess cb
            = cb\<lparr>cb_state := CircuitBreakerClosed, failureCount := 0, successCount := 0\<rparr>
        \<and> cb_ShouldRetry cb now err attempt =
            (if time_Since now (lastFailure cb) > cb_timeout cb
             then (ShouldRetry (cb_default cb) err attempt,
                   cb\<lparr>cb_state := CircuitBreakerHalfOpen, successCount := 0\<rparr>)
             else (False, cb)))
   \<and> (cb_state cb = CircuitBreakerHalfOpen \<longrightarrow>
        recordFailure cb now = cb\<lparr>lastFailure := now, cb_state := CircuitBreakerOpen\<rparr>
        \<and> RecordSuccess cb =
            (if wrap64 (successCount cb + 1) \<ge> recoveryThreshold cb
             then cb\<lparr>cb_state := CircuitBreakerClosed, failureCount := 0, successCount := 0\<rparr>
             else cb\<lparr>successCount := wrap64 (successCount cb + 1)\<rparr>)
        \<and> cb_ShouldRetry cb now err attempt = (ShouldRetry (cb_default cb) err attempt, cb))
   \<and> (defaults cb \<and> cb_state cb = CircuitBreakerClosed \<and> failureCount cb = 0 \<longrightarrow>
        recordFailures cb ts =
          (if ts = [] then cb
           else cb\<lparr>lastFailure := last ts, failureCount := min (int (length ts)) 5,
                   cb_state := (if length ts < 5 then CircuitBreakerClosed
                                else CircuitBreakerOpen)\<rparr>))
   \<and> (defaults cb \<and> cb_state cb = CircuitBreakerClosed \<and> failureCount cb = 0 \<and> length ts = 5 \<longrightarrow>
        cb_ShouldRetry (recordFailures cb ts) now err attempt =
          (if time_Since now (last ts) > 60 * Second
           then (ShouldRetry (cb_default cb) err attempt,
                 cb\<lparr>lastFailure := last ts, failureCount := 5,
                    cb_state := CircuitBreakerHalfOpen, successCount := 0\<rparr>)
           else (False,
                 cb\<lparr>lastFailure := last ts, failureCount := 5, cb_state := CircuitBreakerOpen\<rparr>)))
   \<and> (defaults cb \<and> cb_state cb = CircuitBreakerHalfOpen \<and> successCount cb = 0 \<longrightarrow>
        recordSuccesses cb n =
          (if n < 3 then cb\<lparr>successCount := int n\<rparr>
           else cb\<lparr>cb_state := CircuitBreakerClosed, failureCount := 0, successCount := 0\<rparr>))"
proof -
  have init: "cb_state NewCircuitBreakerErrorHandler = CircuitBreakerClosed
     \<and> failureCount NewCircuitBreakerErrorHandler = 0
     \<and> successCount NewCircuitBreakerErrorHandler = 0
     \<and> defaults NewCircuitBreakerErrorHandler"
    by (simp add: NewCircuitBreakerErrorHandler_def defaults_def)
  have closed: "cb_state cb = CircuitBreakerClosed \<longrightarrow>
        recordFailure cb now =
          (if wrap64 (failureCount cb + 1) \<ge> failureThreshold cb
           then cb\<lparr>lastFailure := now, failureCount := wrap64 (failureCount cb + 1),
                   cb_state := CircuitBreakerOpen\<rparr>
           else cb\<lparr>lastFailure := now, failureCount := wrap64 (failureCount cb + 1)\<rparr>)
        \<and> RecordSuccess cb = cb\<lparr>failureCount := 0\<rparr>
        \<and> cb_ShouldRetry cb now err attempt = (ShouldRetry (cb_default cb) err attempt, cb)"
    using recordFailure_closed [of cb now] RecordSuccess_closed [of cb]
      cb_ShouldRetry_not_open [of cb now err attempt]
    by simp
  have opened: "cb_state cb = CircuitBreakerOpen \<longrightarrow>
        recordFailure cb now = cb\<lparr>lastFailure := now\<rparr>
        \<and> RecordSuccess cb
            = cb\<lparr>cb_state := CircuitBreakerClosed, failureCount := 0, successCount := 0\<rparr>
        \<and> cb_ShouldRetry cb now err attempt =
            (if time_Since now (lastFailure cb) > cb_timeout cb
             then (ShouldRetry (cb_default cb) err attempt,
                   cb\<lparr>cb_state := CircuitBreakerHalfOpen, successCount := 0\<rparr>)
             else (False, cb))"
    using recordFailure_open [of cb now] RecordSuccess_open [of cb]
      cb_ShouldRetry_open_denied [of cb now err attempt]
      cb_ShouldRetry_open_elapsed [of cb now err attempt]
    by simp
  have half: "cb_state cb = CircuitBreakerHalfOpen \<longrightarrow>
        recordFailure cb now = cb\<lparr>lastFailure := now, cb_state := CircuitBreakerOpen\<rparr>
        \<and> RecordSuccess cb =
            (if wrap64 (successCount cb + 1) \<ge> recoveryThreshold cb
             then cb\<lparr>cb_state := CircuitBreakerClosed, failureCount := 0, successCount := 0\<rparr>
             else cb\<lparr>successCount := wrap64 (successCount cb + 1)\<rparr>)
        \<and> cb_ShouldRetry cb now err attempt = (ShouldRetry (cb_default cb) err attempt, cb)"
    using recordFailure_halfOpen [of cb now] RecordSuccess_halfOpen [of cb]
      cb_ShouldRetry_not_open [of cb now err attempt]
    by simp
  have fails: "defaults cb \<and> cb_state cb = CircuitBreakerClosed \<and> failureCount cb = 0 \<longrightarrow>
        recordFailures cb ts =
          (if ts = [] then cb
           else cb\<lparr>lastFailure := last ts, failureCount := min (int (length ts)) 5,
                   cb_state := (if length ts < 5 then CircuitBreakerClosed
                                else CircuitBreakerOpen)\<rparr>)"
    using recordFailures_default [of cb ts] by blast
  have cool: "defaults cb \<and> cb_state cb = CircuitBreakerClosed \<and> failureCount cb = 0 \<and> length ts = 5 \<longrightarrow>
        cb_ShouldRetry (recordFailures cb ts) now err attempt =
          (if time_Since now (last ts) > 60 * Second
           then (ShouldRetry (cb_default cb) err attempt,
                 cb\<lparr>lastFailure := last ts, failureCount := 5,
                    cb_state := CircuitBreakerHalfOpen, successCount := 0\<rparr>)
           else (False,
                 cb\<lparr>lastFailure := last ts, failureCount := 5, cb_state := CircuitBreakerOpen\<rparr>))"
  proof (intro impI, elim conjE)
    assume a: "defaults cb" "cb_state cb = CircuitBreakerClosed" "failureCount cb = 0"
      and l: "length ts = 5"
    let ?o = "cb\<lparr>lastFailure := last ts, failureCount := 5, cb_state := CircuitBreakerOpen\<rparr>"
    from l have "ts \<noteq> []" by auto
    with recordFailures_default [OF a, of ts] l have rf: "recordFailures cb ts = ?o" by simp
    have t: "cb_timeout ?o = 60 * Second" using a(1) by (simp add: defaults_def)
    show "cb_ShouldRetry (recordFailures cb ts) now err attempt =
          (if time_Since now (last ts) > 60 * Second
           then (ShouldRetry (cb_default cb) err attempt,
                 cb\<lparr>lastFailure := last ts, failureCount := 5,
                    cb_state := CircuitBreakerHalfOpen, successCount := 0\<rparr>)
           else (False, ?o))"
      unfolding rf
      using cb_ShouldRetry_open_denied [of ?o now err attempt]
        cb_ShouldRetry_open_elapsed [of ?o now err attempt] t
      by simp
  qed
  have succs: "defaults cb \<and> cb_state cb = CircuitBreakerHalfOpen \<and> successCount cb = 0 \<longrightarrow>
        recordSuccesses cb n =
          (if n < 3 then cb\<lparr>successCount := int n\<rparr>
           else cb\<lparr>cb_state := CircuitBreakerClosed, failureCount := 0, successCount := 0\<rparr>)"
    using recordSuccesses_default [of cb n] by blast
  from init closed opened half fails cool succs show ?thesis by blast
qed

theorem circuit_breaker_state_machine_witness:
  "recordFailures NewCircuitBreakerErrorHandler [Second, 2 * Second, 3 * Second, 4 * Second]
     = NewCircuitBreakerErrorHandler\<lparr>lastFailure := 4 * Second, failureCount := 4\<rparr>
   \<and> recordFailures NewCircuitBreakerErrorHandler
        [Second, 2 * Second, 3 * Second, 4 * Second, 5 * Second] = cbOpen
   \<and> RecordSuccess (NewCircuitBreakerErrorHandler\<lparr>failureCount := 4\<rparr>) = NewCircuitBreakerErrorHandler
   \<and> cb_ShouldRetry (recordFailures NewCircuitBreakerErrorHandler
        [Second, 2 * Second, 3 * Second, 4 * Second, 5 * Second]) (65 * Second) (Some netErr) 0
       = (False, cbOpen)
   \<and> cb_ShouldRetry cbOpen (65 * Second + 1) (Some netErr) 0 = (True, cbHalf)
   \<and> cb_ShouldRetry cbHalf (66 * Second) (Some netErr) 0 = (True, cbHalf)
   \<and> recordSuccesses cbHalf 2 = cbHalf\<lparr>successCount := 2\<rparr>
   \<and> recordSuccesses cbHalf 3 = NewCircuitBreakerErrorHandler\<lparr>lastFailure := 5 * Second\<rparr>
   \<and> recordFailure cbHalf (70 * Second) = cbOpen\<lparr>lastFailure := 70 * Second\<rparr>
   \<and> recordFailure cbOpen (70 * Second) = cbOpen\<lparr>lastFailure := 70 * Second\<rparr>
   \<and> RecordSuccess cbOpen = NewCircuitBreakerErrorHandler\<lparr>lastFailure := 5 * Second\<rparr>"
proof -
  note defs = defaults_def cbOpen_def cbHalf_def netErr_def NewCircuitBreakerErrorHandler_def
      time_Since_def time_Sub_def sat64_def wrap64_def Second_def ShouldRetry_def
      NewNetworkError_def New_def
  have 1: "recordFailures NewCircuitBreakerErrorHandler [Second, 2 * Second, 3 * Second, 4 * Second]
     = NewCircuitBreakerErrorHandler\<lparr>lastFailure := 4 * Second, failureCount := 4\<rparr>"
    using circuit_breaker_state_machine [where cb = NewCircuitBreakerErrorHandler
      and ts = "[Second, 2 * Second, 3 * Second, 4 * Second]"
      and now = 0 and err = None and attempt = 0 and n = 0]
    by (simp add: defs; (elim conjE)?; simp)
  have 2: "recordFailures NewCircuitBreakerErrorHandler
        [Second, 2 * Second, 3 * Second, 4 * Second, 5 * Second] = cbOpen
     \<and> cb_ShouldRetry (recordFailures NewCircuitBreakerErrorHandler
        [Second, 2 * Second, 3 * Second, 4 * Second, 5 * Second]) (65 * Second) (Some netErr) 0
       = (False, cbOpen)"
    using circuit_breaker_state_machine [where cb = NewCircuitBreakerErrorHandler
      and ts = "[Second, 2 * Second, 3 * Second, 4 * Second, 5 * Second]"
      and now = "65 * Second" and err = "Some netErr" and attempt = 0 and n = 0]
    by (simp add: defs; (elim conjE)?; simp)
  have 3: "RecordSuccess (NewCircuitBreakerErrorHandler\<lparr>failureCount := 4\<rparr>)
      = NewCircuitBreakerErrorHandler"
    using circuit_breaker_state_machine [where cb = "NewCircuitBreakerErrorHandler\<lparr>failureCount := 4\<rparr>"
      and ts = "[]" and now = 0 and err = None and attempt = 0 and n = 0]
    by (simp add: defs; (elim conjE)?; simp)
  have 4: "cb_ShouldRetry cbOpen (65 * Second + 1) (Some netErr) 0 = (True, cbHalf)
      \<and> RecordSuccess cbOpen = NewCircuitBreakerErrorHandler\<lparr>lastFailure := 5 * Second\<rparr>"
    using circuit_breaker_state_machine [where cb = cbOpen and ts = "[]" and now = "65 * Second + 1"
      and err = "Some netErr" and attempt = 0 and n = 0]
    by (simp add: defs; (elim conjE)?; simp)
  have 5: "cb_ShouldRetry cbHalf (66 * Second) (Some netErr) 0 = (True, cbHalf)
      \<and> recordSuccesses cbHalf 2 = cbHalf\<lparr>successCount := 2\<rparr>"
    using circuit_breaker_state_machine [where cb = cbHalf and ts = "[]" and now = "66 * Second"
      and err = "Some netErr" and attempt = 0 and n = 2]
    by (simp add: defs; (elim conjE)?; simp)
  have 6: "recordSuccesses cbHalf 3 = NewCircuitBreakerErrorHandler\<lparr>lastFailure := 5 * Second\<rparr>
      \<and> recordFailure cbHalf (70 * Second) = cbOpen\<lparr>lastFailure := 70 * Second\<rparr>"
    using circuit_breaker_state_machine [where cb = cbHalf and ts = "[]" and now = "70 * Second"
      and err = None and attempt = 0 and n = 3]
    by (simp add: defs; (elim conjE)?; simp)
  have 7: "recordFailure cbOpen (70 * Second) = cbOpen\<lparr>lastFailure := 70 * Second\<rparr>"
    using circuit_breaker_state_machine [where cb = cbOpen and ts = "[]" and now = "70 * Second"
      and err = None and attempt = 0 and n = 0]
    by (simp add: defs; (elim conjE)?; simp)
  from 1 2 3 4 5 6 7 show ?thesis by blast
qed


section \<open>Properties of the retry policy\<close>

lemma has_prefix_iff: "has_prefix s sub \<longleftrightarrow> (\<exists>q. s = sub @ q)"
  by (induction s sub rule: has_prefix.induct) auto

lemma Contains_iff: "Contains s sub \<longleftrightarrow> (\<exists>p q. s = p @ sub @ q)"
proof (induction s)
  case Nil
  then show ?case by auto
next
  case (Cons x xs)
  show ?case
  proof
    assume "Contains (x # xs) sub"
    then consider "has_prefix (x # xs) sub" | "Contains xs sub" by auto
    then show "\<exists>p q. x # xs = p @ sub @ q"
    proof cases
      case 1
      then obtain q where "x # xs = sub @ q" by (auto simp: has_prefix_iff)
      then have "x # xs = [] @ sub @ q" by simp
      then show ?thesis by blast
    next
      case 2
      with Cons obtain p q where "xs = p @ sub @ q" by blast
      then have "x # xs = (x # p) @ sub @ q" by simp
      then show ?thesis by blast
    qed
  next
    assume "\<exists>p q. x # xs = p @ sub @ q"
    then obtain p q where pq: "x # xs = p @ sub @ q" by blast
    show "Contains (x # xs) sub"
    proof (cases p)
      case Nil
      with pq have "has_prefix (x # xs) sub" by (auto simp: has_prefix_iff)
      then show ?thesis by simp
    next
      case (Cons y ys)
      with pq have "xs = ys @ sub @ q" by simp
      with Cons.IH have "Contains xs sub" by blast
      then show ?thesis by simp
    qed
  qed
qed

lemma ShouldRetry_table:
  assumes "\<not> e_Retryable e" and "attempt < maxRetries eh"
  shows "ShouldRetry eh (Some e) attempt =
     (case e_Type e of
        ErrorTypeAWS \<Rightarrow> shouldRetryAWSError e
      | ErrorTypeNetwork \<Rightarrow> True
      | ErrorTypeTimeout \<Rightarrow> True
      | ErrorTypeRateLimit \<Rightarrow> True
      | ErrorTypeInternal \<Rightarrow> shouldRetryInternalError e
      | _ \<Rightarrow> False)"
  using assms by (simp add: ShouldRetry_def split: ErrorType.splits)

lemma ShouldRetry_permission:
  "\<not> e_Retryable e \<Longrightarrow> e_Type e = ErrorTypePermission \<Longrightarrow> \<not> ShouldRetry eh (Some e) attempt"
  by (simp add: ShouldRetry_def)

lemma eh_ShouldRetry_permission:
  "\<not> e_Retryable e \<Longrightarrow> e_Type e = ErrorTypePermission \<Longrightarrow> \<not> fst (eh_ShouldRetry h now (Some e) attempt)"
  by (cases h) (auto simp: ShouldRetry_permission cb_ShouldRetry_def isCircuitOpen_def split: prod.splits if_splits)

lemma shouldRetryInternalError_iff:
  "shouldRetryInternalError e \<longleftrightarrow>
     e_Code e \<in> {''CONTEXT_CANCELLED'', ''TIMEOUT'', ''NETWORK_ERROR'', ''TEMPORARY_FAILURE''}"
  by (auto simp: shouldRetryInternalError_def retryableInternalCodes_def)

lemma shouldRetryAWSError_iff:
  "shouldRetryAWSError e \<longleftrightarrow>
     (\<exists>c \<in> set retryableAWSCodes. Contains (e_Code e) c \<or> Contains (e_Message e) c)
     \<or> (\<exists>p \<in> set retryablePatterns. Contains (ToLower (e_Message e)) p)"
  by (simp add: shouldRetryAWSError_def list_ex_iff)

lemma shouldRetryAWSError_code:
  "\<exists>c \<in> set retryableAWSCodes. Contains (e_Code e) c \<or> Contains (e_Message e) c \<Longrightarrow>
   shouldRetryAWSError e"
  by (simp add: shouldRetryAWSError_def list_ex_iff)

lemma permission_once:
  assumes retries: "0 \<le> cfg_Retries (collectorConfig bc)"
      "cfg_Retries (collectorConfig bc) < 2 ^ 63 - 1"
    and live: "ctxErr E 0 = None"
    and fails: "collectFunc E 0 = (ms, Some (ErrPtr (Some e)))"
    and perm: "e_Type e = ErrorTypePermission" "\<not> e_Retryable e"
  shows "\<exists>st. CollectWithRetry bc E region = Inr st \<and> ls_calls st = 1
      \<and> res_Error (ls_result st) = Some (e\<lparr>e_Operation := ''collect'', e_Region := region\<rparr>)
      \<and> res_Metrics (ls_result st) = []"
proof -
  let ?e' = "e\<lparr>e_Operation := ''collect'', e_Region := region\<rparr>"
  let ?st0 = "initialState bc E region"
  have e': "\<not> e_Retryable ?e'" "e_Type ?e' = ErrorTypePermission" using perm by simp_all
  obtain b h where sr: "eh_ShouldRetry (errorHandler bc) (clock E 0) (Some ?e') 0 = (b, h)"
    by (cases "eh_ShouldRetry (errorHandler bc) (clock E 0) (Some ?e') 0")
  have "\<not> b" using eh_ShouldRetry_permission [OF e', of "errorHandler bc" "clock E 0" 0] sr by simp
  let ?st1 = "?st0\<lparr>ls_lastErr := Some ?e', ls_bc := (ls_bc ?st0)\<lparr>errorHandler := h\<rparr>,
                   ls_calls := ls_calls ?st0 + 1\<rparr>"
  have step: "attemptStep E region (cfg_Retries (collectorConfig bc)) 0 ?st0 = Inr (Break ?st1)"
    using live fails sr \<open>\<not> b\<close>
    by (simp add: attemptStep_def WithRegion_def WithOperation_def initialState_def)
  have loop: "retryLoop E region (cfg_Retries (collectorConfig bc)) 0 ?st0 = Inr (Fallthrough, ?st1)"
    using retries by (subst retryLoop.simps) (simp add: step wrap64_id)
  have "CollectWithRetry bc E region = Inr (finishCollection E ?st1)"
    by (simp add: CollectWithRetry_def loop)
  moreover have "ls_calls (finishCollection E ?st1) = 1"
    by (simp add: finishCollection_def Let_def initialState_def)
  moreover have "res_Error (ls_result (finishCollection E ?st1)) = Some ?e'"
    by (simp add: finishCollection_def Let_def initialState_def)
  moreover have "res_Metrics (ls_result (finishCollection E ?st1)) = []"
    by (simp add: finishCollection_def Let_def initialState_def)
  ultimately show ?thesis by blast
qed


text \<open>
  C3. For a classified error whose explicit retryable flag is not set, at an attempt
  number below the retry budget of the handler, \<open>ShouldRetry\<close> follows the category
  table: network, timeout and rate-limit errors are retried; permission, configuration
  and validation errors are not; an internal error is retried exactly when its code is
  CONTEXT_CANCELLED, TIMEOUT, NETWORK_ERROR or TEMPORARY_FAILURE; an AWS error is retried
  when its code or message contains one of the retryable codes, and, its message being
  ASCII, exactly when that is so or its lower-cased message contains one of the
  retryable patterns. Consequently, when the unit of work always fails with such a
  permission error, the retry count is not negative and below the largest 64-bit integer
  (so that the loop bound \<open>Retries + 1\<close> does not wrap) and the context is live at the
  first attempt, \<open>CollectWithRetry\<close> calls the unit of work exactly once and returns a
  result whose error is of category permission and whose metric sequence is empty, with
  either error handler.
\<close>

theorem ShouldRetry_category_table:
  "(\<not> e_Retryable e \<and> attempt < maxRetries eh \<longrightarrow>
      (e_Type e \<in> {ErrorTypeNetwork, ErrorTypeTimeout, ErrorTypeRateLimit}
         \<longrightarrow> ShouldRetry eh (Some e) attempt)
    \<and> (e_Type e \<in> {ErrorTypePermission, ErrorTypeConfig, ErrorTypeValidation}
         \<longrightarrow> \<not> ShouldRetry eh (Some e) attempt)
    \<and> (e_Type e = ErrorTypeInternal \<longrightarrow>
         ShouldRetry eh (Some e) attempt =
           (e_Code e \<in> {''CONTEXT_CANCELLED'', ''TIMEOUT'', ''NETWORK_ERROR'', ''TEMPORARY_FAILURE''}))
    \<and> (e_Type e = ErrorTypeAWS
          \<and> (\<exists>c \<in> set retryableAWSCodes. Contains (e_Code e) c \<or> Contains (e_Message e) c)
         \<longrightarrow> ShouldRetry eh (Some e) attempt)
    \<and> (e_Type e = ErrorTypeAWS \<and> isASCII (e_Message e) \<longrightarrow>
         ShouldRetry eh (Some e) attempt =
           ((\<exists>c \<in> set retryableAWSCodes. Contains (e_Code e) c \<or> Contains (e_Message e) c)
            \<or> (\<exists>p \<in> set retryablePatterns. Contains (ToLower (e_Message e)) p))))
   \<and> (0 \<le> cfg_Retries (collectorConfig bc) \<and> cfg_Retries (collectorConfig bc) < 2 ^ 63 - 1
       \<and> ctxErr E 0 = None
       \<and> (\<forall>i. \<exists>ms pe. collectFunc E i = (ms, Some (ErrPtr (Some pe)))
                \<and> e_Type pe = ErrorTypePermission \<and> \<not> e_Retryable pe)
      \<longrightarrow> (\<exists>st pe. CollectWithRetry bc E region = Inr st \<and> ls_calls st = 1
             \<and> res_Error (ls_result st) = Some pe \<and> e_Type pe = ErrorTypePermission
             \<and> res_Metrics (ls_result st) = []))"
proof -
  have table: "\<not> e_Retryable e \<and> attempt < maxRetries eh \<longrightarrow>
      (e_Type e \<in> {ErrorTypeNetwork, ErrorTypeTimeout, ErrorTypeRateLimit}
         \<longrightarrow> ShouldRetry eh (Some e) attempt)
    \<and> (e_Type e \<in> {ErrorTypePermission, ErrorTypeConfig, ErrorTypeValidation}
         \<longrightarrow> \<not> ShouldRetry eh (Some e) attempt)
    \<and> (e_Type e = ErrorTypeInternal \<longrightarrow>
         ShouldRetry eh (Some e) attempt =
           (e_Code e \<in> {''CONTEXT_CANCELLED'', ''TIMEOUT'', ''NETWORK_ERROR'', ''TEMPORARY_FAILURE''}))
    \<and> (e_Type e = ErrorTypeAWS
          \<and> (\<exists>c \<in> set retryableAWSCodes. Contains (e_Code e) c \<or> Contains (e_Message e) c)
         \<longrightarrow> ShouldRetry eh (Some e) attempt)
    \<and> (e_Type e = ErrorTypeAWS \<and> isASCII (e_Message e) \<longrightarrow>
         ShouldRetry eh (Some e) attempt =
           ((\<exists>c \<in> set retryableAWSCodes. Contains (e_Code e) c \<or> Contains (e_Message e) c)
            \<or> (\<exists>p \<in> set retryablePatterns. Contains (ToLower (e_Message e)) p)))"
  proof (intro impI, elim conjE)
    assume a: "\<not> e_Retryable e" "attempt < maxRetries eh"
    note t = ShouldRetry_table [OF a]
    have 1: "e_Type e \<in> {ErrorTypeNetwork, ErrorTypeTimeout, ErrorTypeRateLimit}
         \<longrightarrow> ShouldRetry eh (Some e) attempt"
      using t by auto
    have 2: "e_Type e \<in> {ErrorTypePermission, ErrorTypeConfig, ErrorTypeValidation}
         \<longrightarrow> \<not> ShouldRetry eh (Some e) attempt"
      using t by auto
    have 3: "e_Type e = ErrorTypeInternal \<longrightarrow>
         ShouldRetry eh (Some e) attempt =
           (e_Code e \<in> {''CONTEXT_CANCELLED'', ''TIMEOUT'', ''NETWORK_ERROR'', ''TEMPORARY_FAILURE''})"
      using t shouldRetryInternalError_iff [of e] by simp
    have 5: "e_Type e = ErrorTypeAWS
          \<and> (\<exists>c \<in> set retryableAWSCodes. Contains (e_Code e) c \<or> Contains (e_Message e) c)
         \<longrightarrow> ShouldRetry eh (Some e) attempt"
      using t shouldRetryAWSError_code [of e] by simp
    have 4: "e_Type e = ErrorTypeAWS \<and> isASCII (e_Message e) \<longrightarrow>
         ShouldRetry eh (Some e) attempt =
           ((\<exists>c \<in> set retryableAWSCodes. Contains (e_Code e) c \<or> Contains (e_Message e) c)
            \<or> (\<exists>p \<in> set retryablePatterns. Contains (ToLower (e_Message e)) p))"
      using t shouldRetryAWSError_iff [of e] by simp
    from 1 2 3 4 5 show "(e_Type e \<in> {ErrorTypeNetwork, ErrorTypeTimeout, ErrorTypeRateLimit}
         \<longrightarrow> ShouldRetry eh (Some e) attempt)
    \<and> (e_Type e \<in> {ErrorTypePermission, ErrorTypeConfig, ErrorTypeValidation}
         \<longrightarrow> \<not> ShouldRetry eh (Some e) attempt)
    \<and> (e_Type e = ErrorTypeInternal \<longrightarrow>
         ShouldRetry eh (Some e) attempt =
           (e_Code e \<in> {''CONTEXT_CANCELLED'', ''TIMEOUT'', ''NETWORK_ERROR'', ''TEMPORARY_FAILURE''}))
    \<and> (e_Type e = ErrorTypeAWS
          \<and> (\<exists>c \<in> set retryableAWSCodes. Contains (e_Code e) c \<or> Contains (e_Message e) c)
         \<longrightarrow> ShouldRetry eh (Some e) attempt)
    \<and> (e_Type e = ErrorTypeAWS \<and> isASCII (e_Message e) \<longrightarrow>
         ShouldRetry eh (Some e) attempt =
           ((\<exists>c \<in> set retryableAWSCodes. Contains (e_Code e) c \<or> Contains (e_Message e) c)
            \<or> (\<exists>p \<in> set retryablePatterns. Contains (ToLower (e_Message e)) p)))"
      by blast
  qed
  have once: "0 \<le> cfg_Retries (collectorConfig bc) \<and> cfg_Retries (collectorConfig bc) < 2 ^ 63 - 1
       \<and> ctxErr E 0 = None
       \<and> (\<forall>i. \<exists>ms pe. collectFunc E i = (ms, Some (ErrPtr (Some pe)))
                \<and> e_Type pe = ErrorTypePermission \<and> \<not> e_Retryable pe)
      \<longrightarrow> (\<exists>st pe. CollectWithRetry bc E region = Inr st \<and> ls_calls st = 1
             \<and> res_Error (ls_result st) = Some pe \<and> e_Type pe = ErrorTypePermission
             \<and> res_Metrics (ls_result st) = [])"
  proof (intro impI, elim conjE)
    assume r: "0 \<le> cfg_Retries (collectorConfig bc)"
      and r2: "cfg_Retries (collectorConfig bc) < 2 ^ 63 - 1" and l: "ctxErr E 0 = None"
      and f: "\<forall>i. \<exists>ms pe. collectFunc E i = (ms, Some (ErrPtr (Some pe)))
                \<and> e_Type pe = ErrorTypePermission \<and> \<not> e_Retryable pe"
    from f obtain ms pe where pe: "collectFunc E 0 = (ms, Some (ErrPtr (Some pe)))"
      "e_Type pe = ErrorTypePermission" "\<not> e_Retryable pe" by blast
    from permission_once [OF r r2 l pe, of region] obtain st where
      st: "CollectWithRetry bc E region = Inr st" "ls_calls st = 1"
        "res_Error (ls_result st) = Some (pe\<lparr>e_Operation := ''collect'', e_Region := region\<rparr>)"
        "res_Metrics (ls_result st) = []"
      by blast
    have "e_Type (pe\<lparr>e_Operation := ''collect'', e_Region := region\<rparr>) = ErrorTypePermission"
      using pe by simp
    with st show "\<exists>st pe. CollectWithRetry bc E region = Inr st \<and> ls_calls st = 1
             \<and> res_Error (ls_result st) = Some pe \<and> e_Type pe = ErrorTypePermission
             \<and> res_Metrics (ls_result st) = []"
      by blast
  qed
  from table once show ?thesis by (rule conjI)
qed

theorem ShouldRetry_category_table_witness:
  "ShouldRetry NewDefaultErrorHandler (Some (unflagged ErrorTypeNetwork ''CONNECTION_ERROR'' ''connection failed'')) 2
   \<and> \<not> ShouldRetry NewDefaultErrorHandler (Some permErr) 0
   \<and> ShouldRetry NewDefaultErrorHandler (Some (unflagged ErrorTypeInternal ''TIMEOUT'' ''timed out'')) 0
   \<and> \<not> ShouldRetry NewDefaultErrorHandler (Some (unflagged ErrorTypeInternal ''COLLECTION_ERROR'' ''collection failed'')) 0
   \<and> ShouldRetry NewDefaultErrorHandler (Some (unflagged ErrorTypeAWS ''ThrottlingException'' ''Rate exceeded'')) 1
   \<and> \<not> ShouldRetry NewDefaultErrorHandler (Some (unflagged ErrorTypeAWS ''InvalidParameterValue'' ''Bad value'')) 1
   \<and> (\<exists>st pe. CollectWithRetry bc0 envPerm ''us-east-1'' = Inr st \<and> ls_calls st = 1
         \<and> res_Error (ls_result st) = Some pe \<and> e_Type pe = ErrorTypePermission
         \<and> res_Metrics (ls_result st) = [])"
  using
    ShouldRetry_category_table [where eh = NewDefaultErrorHandler and attempt = 2
      and bc = bc0 and E = envPerm and region = "''us-east-1''" and e = "unflagged ErrorTypeNetwork ''CONNECTION_ERROR'' ''connection failed''"]
    ShouldRetry_category_table [where eh = NewDefaultErrorHandler and attempt = 0 and e = permErr
      and bc = bc0 and E = envPerm and region = "''us-east-1''"]
    ShouldRetry_category_table [where eh = NewDefaultErrorHandler and attempt = 0
      and bc = bc0 and E = envPerm and region = "''us-east-1''" and e = "unflagged ErrorTypeInternal ''TIMEOUT'' ''timed out''"]
    ShouldRetry_category_table [where eh = NewDefaultErrorHandler and attempt = 0
      and bc = bc0 and E = envPerm and region = "''us-east-1''" and e = "unflagged ErrorTypeInternal ''COLLECTION_ERROR'' ''collection failed''"]
    ShouldRetry_category_table [where eh = NewDefaultErrorHandler and attempt = 1
      and bc = bc0 and E = envPerm and region = "''us-east-1''" and e = "unflagged ErrorTypeAWS ''ThrottlingException'' ''Rate exceeded''"]
    ShouldRetry_category_table [where eh = NewDefaultErrorHandler and attempt = 1
      and bc = bc0 and E = envPerm and region = "''us-east-1''" and e = "unflagged ErrorTypeAWS ''InvalidParameterValue'' ''Bad value''"]
  by (simp add: unflagged_def permErr_def New_def NewPermissionError_def NewDefaultErrorHandler_def
      bc0_def envPerm_def retryableAWSCodes_def retryablePatterns_def ToLower_def lower_char_def
      isASCII_def)


section \<open>Properties of the retry loop\<close>

lemma attemptStep_Continue:
  "attemptStep E region retries attempt st = Inr (Continue st') \<Longrightarrow> clean st \<Longrightarrow> clean st'"
  by (auto simp: attemptStep_def clean_def Let_def
      split: option.splits prod.splits if_splits sum.splits go_error.splits)

lemma attemptStep_Break:
  "attemptStep E region retries attempt st = Inr (Break st') \<Longrightarrow> clean st \<Longrightarrow>
   res_Metrics (ls_result st') = [] \<or> res_Error (ls_result st') = None"
  by (auto simp: attemptStep_def clean_def Let_def
      split: option.splits prod.splits if_splits sum.splits go_error.splits)

lemma attemptStep_Return:
  "attemptStep E region retries attempt st = Inr (Return st') \<Longrightarrow> clean st \<Longrightarrow>
   res_Metrics (ls_result st') = []"
  by (auto simp: attemptStep_def clean_def Let_def
      split: option.splits prod.splits if_splits sum.splits go_error.splits)

lemma retryLoop_inv:
  "retryLoop E region retries attempt st = Inr (ex, st') \<Longrightarrow> clean st \<Longrightarrow>
   (ex = EarlyReturn \<longrightarrow> res_Metrics (ls_result st') = [])
   \<and> (ex = Fallthrough \<longrightarrow> res_Metrics (ls_result st') = [] \<or> res_Error (ls_result st') = None)"
proof (induction E region retries attempt st rule: retryLoop.induct)
  case (1 E region retries attempt st)
  show ?case
  proof (cases "int attempt < wrap64 (retries + 1)")
    case False
    with "1.prems" show ?thesis
      by (simp add: retryLoop.simps [of E region retries attempt st] clean_def)
  next
    case True
    show ?thesis
    proof (cases "attemptStep E region retries attempt st")
      case (Inl a)
      with True "1.prems" show ?thesis
        by (simp add: retryLoop.simps [of E region retries attempt st])
    next
      case (Inr stp)
      show ?thesis
      proof (cases stp)
        case (Continue st1)
        with Inr True "1.prems" have
          rec: "retryLoop E region retries (Suc attempt) st1 = Inr (ex, st')"
          by (simp add: retryLoop.simps [of E region retries attempt st])
        have "clean st1"
          using attemptStep_Continue [of E region retries attempt st st1] Inr Continue "1.prems"(2) by simp
        with "1.IH" [OF True Inr Continue rec] show ?thesis .
      next
        case (Break st1)
        with Inr True "1.prems" have "ex = Fallthrough" "st' = st1"
          by (simp_all add: retryLoop.simps [of E region retries attempt st])
        moreover have "res_Metrics (ls_result st1) = [] \<or> res_Error (ls_result st1) = None"
          using attemptStep_Break [of E region retries attempt st st1] Inr Break "1.prems"(2) by simp
        ultimately show ?thesis by simp
      next
        case (Return st1)
        with Inr True "1.prems" have "ex = EarlyReturn" "st' = st1"
          by (simp_all add: retryLoop.simps [of E region retries attempt st])
        moreover have "res_Metrics (ls_result st1) = []"
          using attemptStep_Return [of E region retries attempt st st1] Inr Return "1.prems"(2) by simp
        ultimately show ?thesis by simp
      qed
    qed
  qed
qed

lemma finishCollection_error:
  "res_Metrics (ls_result st) = [] \<or> res_Error (ls_result st) = None \<Longrightarrow>
   res_Error (ls_result (finishCollection E st)) \<noteq> None \<Longrightarrow>
   res_Metrics (ls_result (finishCollection E st)) = []"
  by (auto simp: finishCollection_def Let_def split: if_splits)

lemma clean_initialState: "clean (initialState bc E region)"
  by (simp add: clean_def initialState_def)

text \<open>
  C5. Whatever the attempts return, whatever the retry count is and wherever the context
  is cancelled: when \<open>CollectWithRetry\<close> returns a result whose error is set, the metric
  sequence of that result is empty.
\<close>

theorem CollectWithRetry_error_no_metrics:
  "CollectWithRetry bc E region = Inr st \<Longrightarrow> res_Error (ls_result st) \<noteq> None \<Longrightarrow>
   res_Metrics (ls_result st) = []"
proof -
  assume ret: "CollectWithRetry bc E region = Inr st" and err: "res_Error (ls_result st) \<noteq> None"
  let ?r = "retryLoop E region (cfg_Retries (collectorConfig bc)) 0 (initialState bc E region)"
  from ret obtain ex st1 where loop: "?r = Inr (ex, st1)"
    by (cases ?r) (auto simp: CollectWithRetry_def)
  note inv = retryLoop_inv [OF loop clean_initialState]
  show ?thesis
  proof (cases ex)
    case Fallthrough
    with ret loop have st: "st = finishCollection E st1" by (simp add: CollectWithRetry_def)
    from inv Fallthrough have "res_Metrics (ls_result st1) = [] \<or> res_Error (ls_result st1) = None"
      by simp
    from finishCollection_error [OF this] err st show ?thesis by simp
  next
    case EarlyReturn
    with ret loop have "st = st1" by (simp add: CollectWithRetry_def)
    with inv EarlyReturn show ?thesis by simp
  qed
qed


lemmas run_defs = CollectWithRetry_def retryLoop.simps attemptStep_def initialState_def
  finishCollection_def bc0_def handler0_def netErr_def NewNetworkError_def New_def Wrap_def
  WithRegion_def WithOperation_def ShouldRetry_def NewDefaultErrorHandler_def GetRetryDelay_def
  GetRetryAfter_def pow2_scale_def tdiv_def trem_def wrap64_def clampDelay_def maxDelay_def
  minDelay_def Second_def Millisecond_def recordSuccess_def recordError_def recordCollection_def
  time_Sub_def sat64_def Let_def

lemma run_cancelled:
  "\<exists>st. CollectWithRetry bc0 envCancelled ''us-east-1'' = Inr st
     \<and> res_Error (ls_result st) =
         Some (Wrap ''context canceled'' ErrorTypeInternal ''CONTEXT_CANCELLED''
                 ''collection cancelled during retry'')"
  by (simp add: run_defs envCancelled_def)

theorem CollectWithRetry_error_no_metrics_witness:
  "\<exists>st. CollectWithRetry bc0 envCancelled ''us-east-1'' = Inr st
     \<and> res_Error (ls_result st) \<noteq> None \<and> res_Metrics (ls_result st) = []"
proof -
  from run_cancelled obtain st where
    st: "CollectWithRetry bc0 envCancelled ''us-east-1'' = Inr st" "res_Error (ls_result st) \<noteq> None"
    by auto
  from CollectWithRetry_error_no_metrics [OF st] st show ?thesis by blast
qed

lemma run_retry_one_metric:
  "\<exists>st. CollectWithRetry bc0 (envRetry [metric1]) ''us-east-1'' = Inr st
     \<and> ls_calls st = 3 \<and> res_Error (ls_result st) = None \<and> res_Metrics (ls_result st) = [metric1]
     \<and> successfulCollections (ls_bc st) = 1 \<and> errorCount (ls_bc st) = 0"
  by (simp add: run_defs envRetry_def)

text \<open>
  C6. A run in which an attempt succeeds is claimed to return a result without error
  whose metrics are that attempt's output, possibly empty. Here the unit of work fails
  twice with a retryable network error and then succeeds with an empty metric sequence
  (two retries configured): the success is recorded and no further attempt is made, but
  the returned result carries the network error of the second attempt and the error is
  counted as well. With one metric in the successful output (the lemma above) the same
  run returns no error.
\<close>

theorem CollectWithRetry_empty_success_reports_error:
  "\<exists>st. CollectWithRetry bc0 (envRetry []) ''us-east-1'' = Inr st
     \<and> ls_calls st = 3 \<and> successfulCollections (ls_bc st) = 1
     \<and> res_Metrics (ls_result st) = []
     \<and> res_Error (ls_result st) = Some (netErr\<lparr>e_Operation := ''collect'', e_Region := ''us-east-1''\<rparr>)
     \<and> errorCount (ls_bc st) = 1"
  by (simp add: run_defs envRetry_def)

section \<open>Properties of the retry delay\<close>

lemma clampDelay_max_min: "clampDelay x = max minDelay (min maxDelay x)"
  by (auto simp: clampDelay_def Let_def minDelay_def maxDelay_def Second_def Millisecond_def)

lemma tdiv_pos: "0 \<le> a \<Longrightarrow> 0 < b \<Longrightarrow> tdiv a b = a div b"
  by (cases "a = 0") (simp_all add: tdiv_def)

lemma trem_pos: "0 \<le> a \<Longrightarrow> 0 < b \<Longrightarrow> trem a b = a mod b"
  by (cases "a = 0") (simp_all add: trem_def)

lemma pow2_scale_nonneg: "0 \<le> a \<Longrightarrow> pow2_scale b a = b * 2 ^ nat a"
  by (simp add: pow2_scale_def)

lemma GetRetryDelay_RetryAfter:
  "e_RetryAfter e = Some r \<Longrightarrow> GetRetryDelay eh now (Some e) attempt = Inr r"
  by (simp add: GetRetryDelay_def GetRetryAfter_def)

lemma GetRetryDelay_in_range:
  assumes ra: "e_RetryAfter e = None"
    and base: "\<bar>baseDelay eh\<bar> \<le> 2 ^ 53"
    and d: "d = pow2_scale (baseDelay eh) attempt"
    and lo: "4 \<le> d" and hi: "d < 2 ^ 63"
    and clk: "0 \<le> now" "now < 2 ^ 62"
  shows "\<exists>x. 3 * d \<le> 4 * x \<and> x < d
           \<and> GetRetryDelay eh now (Some e) attempt = Inr (max minDelay (min maxDelay x))"
proof -
  define J where "J = d div 4"
  define r where "r = (2 * now) mod J"
  define x where "x = d + (r - J)"
  have J: "0 < J" using lo by (simp add: J_def)
  have J4: "4 * J \<le> d" by (simp add: J_def)
  have tdivJ: "tdiv d 4 = J" using lo by (simp add: tdiv_pos J_def)
  have w: "wrap64 (2 * now) = 2 * now" using clk by (simp add: wrap64_id)
  have tr: "trem (2 * now) J = r" using clk J by (simp add: trem_pos r_def)
  have r: "0 \<le> r" "r < J" using J by (simp_all add: r_def)
  have nz: "baseDelay eh \<noteq> 0"
  proof
    assume "baseDelay eh = 0"
    then have "pow2_scale (baseDelay eh) attempt = 0" by (simp add: pow2_scale_def tdiv_def)
    with lo d show False by simp
  qed
  have val: "GetRetryDelay eh now (Some e) attempt = Inr (clampDelay x)"
    using ra base lo hi J nz
    by (simp add: GetRetryDelay_def GetRetryAfter_def d [symmetric] Let_def tdivJ w tr x_def)
  have "3 * d \<le> 4 * x" using r J4 by (simp add: x_def)
  moreover have "x < d" using r by (simp add: x_def)
  ultimately show ?thesis using val clampDelay_max_min by metis
qed

lemma clamp_band:
  assumes "3 * d \<le> 4 * x" and "4 * x \<le> 5 * d"
  shows "max minDelay (min maxDelay (3 * d div 4)) \<le> max minDelay (min maxDelay x)
       \<and> max minDelay (min maxDelay x) \<le> max minDelay (min maxDelay (5 * d div 4))"
proof -
  have "3 * d div 4 \<le> 4 * x div 4" using assms(1) by (rule zdiv_mono1) simp
  then have lo: "3 * d div 4 \<le> x" by simp
  have "4 * x div 4 \<le> 5 * d div 4" using assms(2) by (rule zdiv_mono1) simp
  then have hi: "x \<le> 5 * d div 4" by simp
  from lo hi show ?thesis by (auto simp: max_def min_def)
qed

lemma GetRetryDelay_band:
  assumes ra: "e_RetryAfter e = None"
    and base: "0 < baseDelay eh" "baseDelay eh \<le> 2 ^ 53"
    and att: "0 \<le> attempt"
    and d: "d = baseDelay eh * 2 ^ nat attempt"
    and lo: "4 \<le> d" and hi: "d < 2 ^ 63"
    and clk: "0 \<le> now" "now < 2 ^ 62"
  shows "(\<exists>x. 3 * d \<le> 4 * x \<and> 4 * x \<le> 5 * d
            \<and> GetRetryDelay eh now (Some e) attempt = Inr (max minDelay (min maxDelay x)))
       \<and> (\<exists>r. GetRetryDelay eh now (Some e) attempt = Inr r
            \<and> max minDelay (min maxDelay (3 * d div 4)) \<le> r
            \<and> r \<le> max minDelay (min maxDelay (5 * d div 4)))"
proof -
  have d': "d = pow2_scale (baseDelay eh) attempt" using att d by (simp add: pow2_scale_nonneg)
  have b: "\<bar>baseDelay eh\<bar> \<le> 2 ^ 53" using base by simp
  from GetRetryDelay_in_range [OF ra b d' lo hi clk] obtain x where
    x: "3 * d \<le> 4 * x" "x < d"
      "GetRetryDelay eh now (Some e) attempt = Inr (max minDelay (min maxDelay x))"
    by blast
  from x(2) lo have x5: "4 * x \<le> 5 * d" by simp
  from clamp_band [OF x(1) x5] x(1) x5 x(3) show ?thesis by blast
qed

lemma second_scale_bounds:
  assumes "0 \<le> attempt" "attempt \<le> 33"
  shows "4 \<le> Second * 2 ^ nat attempt" "Second * 2 ^ nat attempt < 2 ^ 63"
proof -
  have "(1::int) \<le> 2 ^ nat attempt" by simp
  then have "(4::int) \<le> 1000000000 * 2 ^ nat attempt" by linarith
  then show "4 \<le> Second * 2 ^ nat attempt" unfolding Second_def .
  have "nat attempt \<le> 33" using assms by simp
  then have "(2::int) ^ nat attempt \<le> 2 ^ 33" by (intro power_increasing) simp_all
  then have "Second * 2 ^ nat attempt \<le> Second * 2 ^ 33"
    by (intro mult_left_mono) (simp_all add: Second_def)
  also have "\<dots> < 2 ^ 63" by (simp add: Second_def)
  finally show "Second * 2 ^ nat attempt < 2 ^ 63" .
qed

text \<open>
  C4. Let the error carry no retry-after. With the base delay of one second that both
  constructors set, an attempt number from 0 to 33 (the exponential value
  \<open>d = base * 2^attempt\<close> then fits a 64-bit duration; the retry loop asks for attempts 0
  to 2) and a clock reading between 0 and \<open>2^62\<close> ns after the epoch, the delay returned
  is \<open>x\<close> clamped to the minimum of 100 ms and the maximum of 30 s, for an \<open>x\<close> within
  25% of \<open>d\<close>; so it lies between 75% and 125% of \<open>d\<close>, both clamped in the same way. The
  same holds of any positive base delay up to \<open>2^53\<close> ns and any non-negative attempt
  whose exponential value is at least 4 ns and fits a 64-bit duration. An error with an
  explicit retry-after gets that value back unchanged, whatever the attempt and the clock
  are.
\<close>

theorem GetRetryDelay_backoff:
  "(e_RetryAfter e = None \<and> baseDelay eh = Second \<and> 0 \<le> attempt \<and> attempt \<le> 33
      \<and> 0 \<le> now \<and> now < 2 ^ 62
     \<longrightarrow> (\<exists>x. 3 * (Second * 2 ^ nat attempt) \<le> 4 * x \<and> 4 * x \<le> 5 * (Second * 2 ^ nat attempt)
              \<and> GetRetryDelay eh now (Some e) attempt = Inr (max minDelay (min maxDelay x)))
         \<and> (\<exists>r. GetRetryDelay eh now (Some e) attempt = Inr r
              \<and> max minDelay (min maxDelay (3 * (Second * 2 ^ nat attempt) div 4)) \<le> r
              \<and> r \<le> max minDelay (min maxDelay (5 * (Second * 2 ^ nat attempt) div 4))))
   \<and> (e_RetryAfter e = None \<and> 0 < baseDelay eh \<and> baseDelay eh \<le> 2 ^ 53 \<and> 0 \<le> attempt
      \<and> 4 \<le> baseDelay eh * 2 ^ nat attempt \<and> baseDelay eh * 2 ^ nat attempt < 2 ^ 63
      \<and> 0 \<le> now \<and> now < 2 ^ 62
     \<longrightarrow> (\<exists>x. 3 * (baseDelay eh * 2 ^ nat attempt) \<le> 4 * x
              \<and> 4 * x \<le> 5 * (baseDelay eh * 2 ^ nat attempt)
              \<and> GetRetryDelay eh now (Some e) attempt = Inr (max minDelay (min maxDelay x)))
         \<and> (\<exists>r. GetRetryDelay eh now (Some e) attempt = Inr r
              \<and> max minDelay (min maxDelay (3 * (baseDelay eh * 2 ^ nat attempt) div 4)) \<le> r
              \<and> r \<le> max minDelay (min maxDelay (5 * (baseDelay eh * 2 ^ nat attempt) div 4))))
   \<and> (e_RetryAfter e = Some ra \<longrightarrow> GetRetryDelay eh now (Some e) attempt = Inr ra)
   \<and> minDelay = 100 * Millisecond \<and> maxDelay = 30 * Second"
proof -
  have general: "e_RetryAfter e = None \<and> 0 < baseDelay eh \<and> baseDelay eh \<le> 2 ^ 53 \<and> 0 \<le> attempt
      \<and> 4 \<le> baseDelay eh * 2 ^ nat attempt \<and> baseDelay eh * 2 ^ nat attempt < 2 ^ 63
      \<and> 0 \<le> now \<and> now < 2 ^ 62
     \<longrightarrow> (\<exists>x. 3 * (baseDelay eh * 2 ^ nat attempt) \<le> 4 * x
              \<and> 4 * x \<le> 5 * (baseDelay eh * 2 ^ nat attempt)
              \<and> GetRetryDelay eh now (Some e) attempt = Inr (max minDelay (min maxDelay x)))
         \<and> (\<exists>r. GetRetryDelay eh now (Some e) attempt = Inr r
              \<and> max minDelay (min maxDelay (3 * (baseDelay eh * 2 ^ nat attempt) div 4)) \<le> r
              \<and> r \<le> max minDelay (min maxDelay (5 * (baseDelay eh * 2 ^ nat attempt) div 4)))"
    using GetRetryDelay_band [of e eh attempt "baseDelay eh * 2 ^ nat attempt" now] by blast
  have second: "e_RetryAfter e = None \<and> baseDelay eh = Second \<and> 0 \<le> attempt \<and> attempt \<le> 33
      \<and> 0 \<le> now \<and> now < 2 ^ 62
     \<longrightarrow> (\<exists>x. 3 * (Second * 2 ^ nat attempt) \<le> 4 * x \<and> 4 * x \<le> 5 * (Second * 2 ^ nat attempt)
              \<and> GetRetryDelay eh now (Some e) attempt = Inr (max minDelay (min maxDelay x)))
         \<and> (\<exists>r. GetRetryDelay eh now (Some e) attempt = Inr r
              \<and> max minDelay (min maxDelay (3 * (Second * 2 ^ nat attempt) div 4)) \<le> r
              \<and> r \<le> max minDelay (min maxDelay (5 * (Second * 2 ^ nat attempt) div 4)))"
  proof (intro impI, elim conjE)
    assume a: "e_RetryAfter e = None" "baseDelay eh = Second" "0 \<le> attempt" "attempt \<le> 33"
      "0 \<le> now" "now < 2 ^ 62"
    have b: "0 < baseDelay eh" "baseDelay eh \<le> 2 ^ 53" using a(2) by (simp_all add: Second_def)
    have d: "Second * 2 ^ nat attempt = baseDelay eh * 2 ^ nat attempt" using a(2) by simp
    from GetRetryDelay_band [OF a(1) b a(3) d second_scale_bounds [OF a(3) a(4)] a(5) a(6)]
    show "(\<exists>x. 3 * (Second * 2 ^ nat attempt) \<le> 4 * x \<and> 4 * x \<le> 5 * (Second * 2 ^ nat attempt)
              \<and> GetRetryDelay eh now (Some e) attempt = Inr (max minDelay (min maxDelay x)))
         \<and> (\<exists>r. GetRetryDelay eh now (Some e) attempt = Inr r
              \<and> max minDelay (min maxDelay (3 * (Second * 2 ^ nat attempt) div 4)) \<le> r
              \<and> r \<le> max minDelay (min maxDelay (5 * (Second * 2 ^ nat attempt) div 4)))" .
  qed
  have after: "e_RetryAfter e = Some ra \<longrightarrow> GetRetryDelay eh now (Some e) attempt = Inr ra"
    by (simp add: GetRetryDelay_RetryAfter)
  have limits: "minDelay = 100 * Millisecond \<and> maxDelay = 30 * Second"
    by (simp add: minDelay_def maxDelay_def)
  from second general after limits show ?thesis by blast
qed

theorem GetRetryDelay_backoff_witness:
  "(\<exists>r. GetRetryDelay NewDefaultErrorHandler clock0 (Some plainErr) 2 = Inr r
       \<and> 3 * Second \<le> r \<and> r \<le> 5 * Second)
   \<and> (\<exists>r. GetRetryDelay NewDefaultErrorHandler clock0 (Some plainErr) 33 = Inr r
       \<and> r = 30 * Second)
   \<and> GetRetryDelay NewDefaultErrorHandler clock0 (Some rateErr) 2 = Inr (7 * Second)"
proof -
  note defs = NewDefaultErrorHandler_def clock0_def plainErr_def rateErr_def New_def Second_def
    Millisecond_def minDelay_def maxDelay_def
  have 1: "\<exists>r. GetRetryDelay NewDefaultErrorHandler clock0 (Some plainErr) 2 = Inr r
       \<and> 3 * Second \<le> r \<and> r \<le> 5 * Second"
    using GetRetryDelay_backoff [where eh = NewDefaultErrorHandler and now = clock0
      and e = plainErr and attempt = 2 and ra = 0]
    by (simp add: defs)
  have 2: "\<exists>r. GetRetryDelay NewDefaultErrorHandler clock0 (Some plainErr) 33 = Inr r
       \<and> r = 30 * Second"
    using GetRetryDelay_backoff [where eh = NewDefaultErrorHandler and now = clock0
      and e = plainErr and attempt = 33 and ra = 0]
    by (auto simp: defs)
  have 3: "GetRetryDelay NewDefaultErrorHandler clock0 (Some rateErr) 2 = Inr (7 * Second)"
    using GetRetryDelay_backoff [where eh = NewDefaultErrorHandler and now = clock0
      and e = rateErr and attempt = 2 and ra = "7 * Second"]
    by (simp add: defs)
  from 1 2 3 show ?thesis by blast
qed


section \<open>Properties of metric labels\<close>

text \<open>
  C7, as stated, fails: a caller that supplies the key "collector" overwrites the
  identifying label, and so does a custom tag of that key in the collector's
  configuration when the caller supplies none.
\<close>

theorem CreateMetric_labels_counterexample:
  "md_Labels (CreateMetric bc0 clock0 ''m'' 1 ''Count'' (Some [''collector'' \<mapsto> ''other'']))
      ''collector'' = Some ''other''
   \<and> bc_name bc0 \<noteq> ''other''
   \<and> md_Labels (CreateMetric bcTagged clock0 ''m'' 1 ''Count'' None) ''collector'' = Some ''tagged''
   \<and> bc_name bcTagged \<noteq> ''tagged''"
  by (simp add: CreateMetric_def getCommonLabels_def bc0_def bcTagged_def)

lemma getCommonLabels_collector:
  "getCommonLabels bc ''collector'' =
     (case cfg_CustomTags (collectorConfig bc) ''collector'' of
        Some t \<Rightarrow> Some t | None \<Rightarrow> Some (bc_name bc))"
  by (simp add: getCommonLabels_def map_add_def split: option.splits)

lemma getCommonLabels_service:
  "getCommonLabels bc ''service'' =
     (case cfg_CustomTags (collectorConfig bc) ''service'' of
        Some t \<Rightarrow> Some t | None \<Rightarrow> Some ''aws-monitor'')"
  by (simp add: getCommonLabels_def map_add_def split: option.splits)

text \<open>
  C7, amended. The labels of a metric built by \<open>CreateMetric\<close> always contain the key
  "collector". For every key the caller's value wins, and the common labels fill in the
  keys the caller's map lacks (all of them when the map is nil). Among the common labels
  the key "collector" carries the configured custom tag of that key if there is one, else
  the collector's name. So the label is the collector's name whenever neither the caller
  nor the custom tags supply the key.
\<close>

theorem CreateMetric_labels:
  "md_Labels (CreateMetric bc now name val unit labels) ''collector'' \<noteq> None
   \<and> (\<forall>l k v. labels = Some l \<and> l k = Some v \<longrightarrow>
         md_Labels (CreateMetric bc now name val unit labels) k = Some v)
   \<and> (\<forall>k. (labels = None \<or> (\<exists>l. labels = Some l \<and> l k = None)) \<longrightarrow>
         md_Labels (CreateMetric bc now name val unit labels) k = getCommonLabels bc k)
   \<and> getCommonLabels bc ''collector'' =
        (case cfg_CustomTags (collectorConfig bc) ''collector'' of
           Some t \<Rightarrow> Some t | None \<Rightarrow> Some (bc_name bc))
   \<and> ((labels = None \<or> (\<exists>l. labels = Some l \<and> l ''collector'' = None))
        \<and> cfg_CustomTags (collectorConfig bc) ''collector'' = None \<longrightarrow>
         md_Labels (CreateMetric bc now name val unit labels) ''collector'' = Some (bc_name bc))"
proof -
  have fill: "\<forall>k. (labels = None \<or> (\<exists>l. labels = Some l \<and> l k = None)) \<longrightarrow>
         md_Labels (CreateMetric bc now name val unit labels) k = getCommonLabels bc k"
    by (auto simp: CreateMetric_def Let_def split: option.splits)
  have wins: "\<forall>l k v. labels = Some l \<and> l k = Some v \<longrightarrow>
         md_Labels (CreateMetric bc now name val unit labels) k = Some v"
    by (auto simp: CreateMetric_def Let_def split: option.splits)
  have common: "getCommonLabels bc ''collector'' \<noteq> None"
    by (simp add: getCommonLabels_collector split: option.splits)
  have has: "md_Labels (CreateMetric bc now name val unit labels) ''collector'' \<noteq> None"
  proof (cases labels)
    case None
    with fill common show ?thesis by simp
  next
    case (Some l)
    show ?thesis
    proof (cases "l ''collector''")
      case None
      with Some fill common show ?thesis by simp
    next
      case (Some v)
      with \<open>labels = Some l\<close> wins show ?thesis by simp
    qed
  qed
  have name: "(labels = None \<or> (\<exists>l. labels = Some l \<and> l ''collector'' = None))
        \<and> cfg_CustomTags (collectorConfig bc) ''collector'' = None \<longrightarrow>
         md_Labels (CreateMetric bc now name val unit labels) ''collector'' = Some (bc_name bc)"
  proof (intro impI, elim conjE)
    assume a: "labels = None \<or> (\<exists>l. labels = Some l \<and> l ''collector'' = None)"
      and t: "cfg_CustomTags (collectorConfig bc) ''collector'' = None"
    from fill a have "md_Labels (CreateMetric bc now name val unit labels) ''collector''
        = getCommonLabels bc ''collector''" by blast
    with t show "md_Labels (CreateMetric bc now name val unit labels) ''collector'' = Some (bc_name bc)"
      by (simp add: getCommonLabels_collector)
  qed
  from has wins fill getCommonLabels_collector [of bc] name show ?thesis by blast
qed

theorem CreateMetric_labels_witness:
  "md_Labels (CreateMetric bcTagged clock0 ''m'' 1 ''Count''
      (Some [''region'' \<mapsto> ''us-east-1'', ''team'' \<mapsto> ''mine''])) ''team'' = Some ''mine''
   \<and> md_Labels (CreateMetric bcTagged clock0 ''m'' 1 ''Count''
      (Some [''region'' \<mapsto> ''us-east-1'', ''team'' \<mapsto> ''mine''])) ''service'' = Some ''aws-monitor''
   \<and> md_Labels (CreateMetric bc0 clock0 ''m'' 1 ''Count''
      (Some [''region'' \<mapsto> ''us-east-1''])) ''collector'' = Some ''test-collector''
   \<and> md_Labels (CreateMetric bc0 clock0 ''m'' 1 ''Count'' None) ''collector'' = Some ''test-collector''"
  using
    CreateMetric_labels [where bc = bcTagged and now = clock0 and name = "''m''" and val = 1
      and unit = "''Count''" and labels = "Some [''region'' \<mapsto> ''us-east-1'', ''team'' \<mapsto> ''mine'']"]
    CreateMetric_labels [where bc = bc0 and now = clock0 and name = "''m''" and val = 1
      and unit = "''Count''" and labels = "Some [''region'' \<mapsto> ''us-east-1'']"]
    CreateMetric_labels [where bc = bc0 and now = clock0 and name = "''m''" and val = 1
      and unit = "''Count''" and labels = None]
  by (simp add: getCommonLabels_def bc0_def bcTagged_def)


section \<open>Properties of the scheduler\<close>

text \<open>
  C8, as stated, fails: a scheduler that is stopping (or starting) is neither stopped nor
  in the error state, and its last tick may be recent, yet \<open>Health\<close> returns an error.
\<close>

theorem Health_counterexample:
  "Health (sched0\<lparr>status := StatusStopping\<rparr>) (101 * Second)
      = Some (NewValidationError ''SCHEDULER_NOT_READY'' ''scheduler is not ready'')
   \<and> status (sched0\<lparr>status := StatusStopping\<rparr>) \<noteq> StatusStopped
   \<and> status (sched0\<lparr>status := StatusStopping\<rparr>) \<noteq> StatusError
   \<and> lastTickTime (sched0\<lparr>status := StatusStopping\<rparr>) = Some (100 * Second)
   \<and> \<not> (101 * Second - 100 * Second > 2 * TickInterval (config (sched0\<lparr>status := StatusStopping\<rparr>)))"
  by (simp add: Health_def sched0_def Second_def)

text \<open>
  C8, amended. \<open>Health\<close> returns nil exactly when the scheduler is running and has either
  not ticked yet or ticked at most twice the tick interval ago (the doubling is done in
  64-bit arithmetic, and is exact for intervals below \<open>2^62\<close> ns). In every other state
  it returns a validation error: SCHEDULER_NOT_TICKING when running with an older last
  tick, SCHEDULER_ERROR in the error state, SCHEDULER_STOPPED when stopped, and
  SCHEDULER_NOT_READY when starting or stopping.
\<close>

theorem Health_spec:
  "(Health s now = None \<longleftrightarrow>
      status s = StatusRunning
      \<and> (\<forall>t. lastTickTime s = Some t \<longrightarrow> time_Since now t \<le> wrap64 (2 * TickInterval (config s))))
   \<and> (status s = StatusRunning
        \<and> (\<exists>t. lastTickTime s = Some t \<and> time_Since now t > wrap64 (2 * TickInterval (config s)))
       \<longrightarrow> Health s now = Some (NewValidationError ''SCHEDULER_NOT_TICKING''
                                    ''scheduler has not ticked recently''))
   \<and> (status s = StatusError \<longrightarrow>
        Health s now = Some (NewValidationError ''SCHEDULER_ERROR'' ''scheduler is in error state''))
   \<and> (status s = StatusStopped \<longrightarrow>
        Health s now = Some (NewValidationError ''SCHEDULER_STOPPED'' ''scheduler is stopped''))
   \<and> (status s = StatusStarting \<or> status s = StatusStopping \<longrightarrow>
        Health s now = Some (NewValidationError ''SCHEDULER_NOT_READY'' ''scheduler is not ready''))
   \<and> (- (2 ^ 62) \<le> TickInterval (config s) \<and> TickInterval (config s) < 2 ^ 62 \<longrightarrow>
        wrap64 (2 * TickInterval (config s)) = 2 * TickInterval (config s))
   \<and> (- (2 ^ 63) \<le> now - t \<and> now - t < 2 ^ 63 \<longrightarrow> time_Since now t = now - t)"
  by (cases "status s"; cases "lastTickTime s")
     (auto simp: Health_def wrap64_def time_Since_def time_Sub_def sat64_def)

theorem Health_spec_witness:
  "Health sched0 (160 * Second) = None
   \<and> Health (sched0\<lparr>lastTickTime := None\<rparr>) (160 * Second) = None
   \<and> Health sched0 (160 * Second + 1)
       = Some (NewValidationError ''SCHEDULER_NOT_TICKING'' ''scheduler has not ticked recently'')
   \<and> Health (sched0\<lparr>status := StatusError\<rparr>) (101 * Second)
       = Some (NewValidationError ''SCHEDULER_ERROR'' ''scheduler is in error state'')
   \<and> Health (sched0\<lparr>status := StatusStopped\<rparr>) (101 * Second)
       = Some (NewValidationError ''SCHEDULER_STOPPED'' ''scheduler is stopped'')
   \<and> Health (sched0\<lparr>status := StatusStarting\<rparr>) (101 * Second)
       = Some (NewValidationError ''SCHEDULER_NOT_READY'' ''scheduler is not ready'')"
  using
    Health_spec [where s = sched0 and now = "160 * Second" and t = "100 * Second"]
    Health_spec [where s = "sched0\<lparr>lastTickTime := None\<rparr>" and now = "160 * Second" and t = 0]
    Health_spec [where s = sched0 and now = "160 * Second + 1" and t = "100 * Second"]
    Health_spec [where s = "sched0\<lparr>status := StatusError\<rparr>" and now = "101 * Second" and t = 0]
    Health_spec [where s = "sched0\<lparr>status := StatusStopped\<rparr>" and now = "101 * Second" and t = 0]
    Health_spec [where s = "sched0\<lparr>status := StatusStarting\<rparr>" and now = "101 * Second" and t = 0]
  by (simp add: sched0_def Second_def)



















end
